theory Spec2Isabelle
  imports Complex_Main "HOL-Library.AList" "HOL-Library.Product_Lexorder"
begin

section \<open>Semantic change scoring: shared Python values\<close>

text \<open>
  The development follows \<^verbatim>\<open>semantic_change.py\<close> and \<^verbatim>\<open>semantic_change_scores.py\<close>.
  Exceptions are values of \<open>error\<close>, and a function that can raise returns
  \<open>error + 'a\<close>. Python floats are read twice. In the first sections they are the
  reals, with exact arithmetic: this is the reading in which the structure of a result is
  studied (which labels, which order, which terms). The section on float arithmetic
  translates the numeric functions again with every operation rounded to an IEEE double;
  what is said of the numbers the program returns is proved there.
\<close>

datatype error = NameError | ValueError | UnboundLocalError | ZeroDivisionError
  | IndexError | KeyError

text \<open>A list comprehension whose element expression can raise: the first raise wins.\<close>

fun comprehension :: "('a \<Rightarrow> error + 'b) \<Rightarrow> 'a list \<Rightarrow> error + 'b list" where
  "comprehension f [] = Inr []"
| "comprehension f (x # xs) =
     (case f x of Inl e \<Rightarrow> Inl e
      | Inr y \<Rightarrow> (case comprehension f xs of Inl e \<Rightarrow> Inl e | Inr ys \<Rightarrow> Inr (y # ys)))"

text \<open>
  \<^verbatim>\<open>count / length\<close> on two Python ints: true division, raising on a zero divisor.
  The quotient here is exact; \<open>fl_truediv\<close> below rounds it to a float, as Python does.
\<close>

definition truediv :: "nat \<Rightarrow> nat \<Rightarrow> error + real" where
  "truediv a b = (if b = 0 then Inl ZeroDivisionError else Inr (real a / real b))"

section \<open>Categorical fitter\<close>

text \<open>
  \<^verbatim>\<open>Counter(xs)\<close> is a dict: keys in order of first occurrence, each with its number
  of occurrences. \<open>count_step\<close> counts one more occurrence; \<open>AList.update\<close> keeps the
  position of a key that is already there.
\<close>

definition count_step :: "'a \<Rightarrow> ('a \<times> nat) list \<Rightarrow> ('a \<times> nat) list" where
  "count_step x c = AList.update x (case map_of c x of None \<Rightarrow> 1 | Some n \<Rightarrow> n + 1) c"

definition Counter :: "'a list \<Rightarrow> ('a \<times> nat) list" where
  "Counter xs = fold count_step xs []"

text \<open>
  \<^verbatim>\<open>set(cluster_assignments)\<close>: the distinct labels. Python leaves the iteration order of
  a set open; the order chosen here is erased by the \<^verbatim>\<open>sorted\<close> call that follows.
\<close>

definition label_set :: "int list \<Rightarrow> int list" where
  "label_set cluster_assignments = remdups cluster_assignments"

text \<open>
  One period of \<^verbatim>\<open>fit_categoricals_from_clusters\<close>: the counts of the period, a zero
  entry for every label of the whole assignment that the period lacks, sorted as Python
  sorts tuples (lexicographically), each count divided by the period length.
\<close>

definition period_counts :: "int list \<Rightarrow> int list \<Rightarrow> (int \<times> nat) list" where
  "period_counts labels period =
     sort (Counter period @
           map (\<lambda>num. (num, 0)) (filter (\<lambda>num. num \<notin> set (map fst (Counter period))) labels))"

definition period_probs :: "int list \<Rightarrow> int list \<Rightarrow> nat \<Rightarrow> error + real list" where
  "period_probs labels period period_length =
     comprehension (\<lambda>(_, count). truediv count period_length) (period_counts labels period)"

definition fit_categoricals_from_clusters ::
  "int list \<Rightarrow> nat \<Rightarrow> nat \<Rightarrow> error + (real list \<times> real list)" where
  "fit_categoricals_from_clusters cluster_assignments period1_length period2_length =
     (let labels = label_set cluster_assignments;
          period1 = take period1_length cluster_assignments
      in case period_probs labels period1 period1_length of
           Inl e \<Rightarrow> Inl e
         | Inr probs1 \<Rightarrow>
             (let period2 = drop period1_length cluster_assignments
              in case period_probs labels period2 period2_length of
                   Inl e \<Rightarrow> Inl e
                 | Inr probs2 \<Rightarrow> Inr (probs1, probs2)))"

text \<open>
  The categorical fitter as the specification words it: for every label of the whole
  assignment, in ascending order, the number of its occurrences in the period divided by
  the period length.
\<close>

definition spec_probs :: "int list \<Rightarrow> int list \<Rightarrow> nat \<Rightarrow> error + real list" where
  "spec_probs cluster_assignment period period_length =
     comprehension (\<lambda>l. truediv (count_list period l) period_length)
       (sorted_list_of_set (set cluster_assignment))"

definition fit_categoricals_spec ::
  "int list \<Rightarrow> nat \<Rightarrow> nat \<Rightarrow> error + (real list \<times> real list)" where
  "fit_categoricals_spec cluster_assignment period1_length period2_length =
     (case spec_probs cluster_assignment (take period1_length cluster_assignment) period1_length of
        Inl e \<Rightarrow> Inl e
      | Inr probs1 \<Rightarrow>
          (case spec_probs cluster_assignment (drop period1_length cluster_assignment)
                  period2_length of
             Inl e \<Rightarrow> Inl e
           | Inr probs2 \<Rightarrow> Inr (probs1, probs2)))"

section \<open>Average pairwise difference\<close>

text \<open>
  A point is a numpy vector, here the list of its coordinates; the points of one call
  have one dimension (at other shapes numpy broadcasts or raises, which is left out).
  A float that a computation yields is \<open>Some r\<close>, or \<open>None\<close> when it is not a finite
  number (\<^verbatim>\<open>nan\<close>, \<^verbatim>\<open>inf\<close>): numpy divides by zero without raising, and the mean of an
  empty list is \<^verbatim>\<open>nan\<close>.
\<close>

type_synonym point = "real list"

definition vsub :: "point \<Rightarrow> point \<Rightarrow> point" where
  "vsub x y = map2 (-) x y"

text \<open>\<^verbatim>\<open>np.linalg.norm(x)\<close>, \<^verbatim>\<open>np.linalg.norm(x, ord=1)\<close> and scipy's \<^verbatim>\<open>canberra(u, v)\<close>,
  whose terms with a zero denominator count as 0.\<close>

definition norm2 :: "point \<Rightarrow> real" where
  "norm2 x = sqrt (\<Sum>c\<leftarrow>x. c\<^sup>2)"

definition norm1 :: "point \<Rightarrow> real" where
  "norm1 x = (\<Sum>c\<leftarrow>x. \<bar>c\<bar>)"

definition canberra :: "point \<Rightarrow> point \<Rightarrow> real" where
  "canberra u v =
     (\<Sum>(a, b)\<leftarrow>zip u v. if \<bar>a\<bar> + \<bar>b\<bar> = 0 then 0 else \<bar>a - b\<bar> / (\<bar>a\<bar> + \<bar>b\<bar>))"

text \<open>
  sklearn's \<^verbatim>\<open>cosine_similarity(X, Y)\<close>: the matrix of the inner products of the rows of
  \<open>X\<close> and \<open>Y\<close>, each row divided by its norm (by 1 when the norm is 0).
\<close>

definition unit_row :: "point \<Rightarrow> point" where
  "unit_row x = map (\<lambda>c. c / (if norm2 x = 0 then 1 else norm2 x)) x"

definition row_cosine :: "point \<Rightarrow> point \<Rightarrow> real" where
  "row_cosine x y = (\<Sum>(a, b)\<leftarrow>zip (unit_row x) (unit_row y). a * b)"

definition cosine_similarity :: "point list \<Rightarrow> point list \<Rightarrow> real list list" where
  "cosine_similarity X Y = map (\<lambda>x. map (\<lambda>y. row_cosine x y) Y) X"

text \<open>
  Float division, and \<^verbatim>\<open>np.mean\<close> of a list of floats and of a matrix. The sum and the
  quotient here are exact; \<open>fl_np_mean\<close> below adds the floats in list order and rounds
  every addition and the quotient.
\<close>

definition fdiv :: "real \<Rightarrow> real \<Rightarrow> real option" where
  "fdiv a b = (if b = 0 then None else Some (a / b))"

definition np_mean :: "real option list \<Rightarrow> real option" where
  "np_mean vs =
     (case those vs of
        None \<Rightarrow> None
      | Some rs \<Rightarrow> if rs = [] then None else Some (sum_list rs / real (length rs)))"

definition matrix_mean :: "real list list \<Rightarrow> real option" where
  "matrix_mean M = np_mean (map Some (concat M))"

text \<open>Arithmetic on floats: a value that is not finite stays so.\<close>

definition fadd :: "real option \<Rightarrow> real option \<Rightarrow> real option" where
  "fadd a b = (case a of None \<Rightarrow> None | Some x \<Rightarrow> map_option (\<lambda>y. x + y) b)"

definition fscale :: "real \<Rightarrow> real option \<Rightarrow> real option" where
  "fscale c a = map_option (\<lambda>x. c * x) a"

definition one_minus :: "real option \<Rightarrow> real option" where
  "one_minus a = map_option (\<lambda>x. 1 - x) a"

text \<open>
  The nested loops \<^verbatim>\<open>for x1 in period1_reps: for x2 in period2_reps: APD.append(f(x1, x2))\<close>
  and the terms they append in the combined metrics:
  \<^item> \<^verbatim>\<open>np.linalg.norm(x2-x1) / np.sqrt(np.linalg.norm(x1)**2 + np.linalg.norm(x2)**2)\<close>,
  \<^item> \<^verbatim>\<open>np.linalg.norm(x2-x1, ord=1) / (np.linalg.norm(x1, ord=1) + np.linalg.norm(x2, ord=1))\<close>,
  \<^item> \<^verbatim>\<open>canberra(x1, x2) / 768\<close>.
\<close>

definition pairs :: "(point \<Rightarrow> point \<Rightarrow> 'a) \<Rightarrow> point list \<Rightarrow> point list \<Rightarrow> 'a list" where
  "pairs f period1_reps period2_reps =
     concat (map (\<lambda>x1. map (\<lambda>x2. f x1 x2) period2_reps) period1_reps)"

definition scaled_l2 :: "point \<Rightarrow> point \<Rightarrow> real option" where
  "scaled_l2 x1 x2 = fdiv (norm2 (vsub x2 x1)) (sqrt ((norm2 x1)\<^sup>2 + (norm2 x2)\<^sup>2))"

definition scaled_l1 :: "point \<Rightarrow> point \<Rightarrow> real option" where
  "scaled_l1 x1 x2 = fdiv (norm1 (vsub x2 x1)) (norm1 x1 + norm1 x2)"

definition scaled_canberra :: "point \<Rightarrow> point \<Rightarrow> real option" where
  "scaled_canberra x1 x2 = Some (canberra x1 x2 / 768)"

text \<open>
  The result of \<^verbatim>\<open>compute_average_pairwise_difference\<close>: a float, or the empty list that
  \<^verbatim>\<open>APD = []\<close> leaves when no branch assigns. The parameter \<^verbatim>\<open>dist\<close> is \<open>metric\<close> here.
\<close>

datatype apd = Scalar "real option" | EmptyList

definition compute_average_pairwise_difference ::
  "point list \<Rightarrow> point list \<Rightarrow> string \<Rightarrow> apd" where
  "compute_average_pairwise_difference period1_reps period2_reps metric =
     (if metric = ''euclidian'' then
        Scalar (np_mean (pairs (\<lambda>x1 x2. Some (norm2 (vsub x2 x1))) period1_reps period2_reps))
      else if metric = ''cosine'' then
        Scalar (one_minus (matrix_mean (cosine_similarity period1_reps period2_reps)))
      else if metric = ''manhattan'' then
        Scalar (np_mean (pairs (\<lambda>x1 x2. Some (norm1 (vsub x2 x1))) period1_reps period2_reps))
      else if metric = ''canberra'' then
        Scalar (np_mean (pairs (\<lambda>x1 x2. Some (canberra x1 x2)) period1_reps period2_reps))
      else if metric = ''combined2'' then
        (let APD1 = np_mean (pairs scaled_l2 period1_reps period2_reps);
             APD2 = fscale (1 / 2)
                      (one_minus (matrix_mean (cosine_similarity period1_reps period2_reps)))
         in Scalar (fscale (1 / 2) (fadd APD1 APD2)))
      else if metric = ''combined3a'' then
        (let APD1 = np_mean (pairs scaled_l2 period1_reps period2_reps);
             APD3 = np_mean (pairs scaled_l1 period1_reps period2_reps);
             APD2 = fscale (1 / 2)
                      (one_minus (matrix_mean (cosine_similarity period1_reps period2_reps)))
         in Scalar (fscale (1 / 3) (fadd (fadd APD1 APD2) APD3)))
      else if metric = ''combined3b'' then
        (let APD1 = np_mean (pairs scaled_l2 period1_reps period2_reps);
             APD3 = np_mean (pairs scaled_canberra period1_reps period2_reps);
             APD2 = fscale (1 / 2)
                      (one_minus (matrix_mean (cosine_similarity period1_reps period2_reps)))
         in Scalar (fscale (1 / 3) (fadd (fadd APD1 APD2) APD3)))
      else if metric = ''combined4'' then
        (let APD1 = np_mean (pairs scaled_l2 period1_reps period2_reps);
             APD3 = np_mean (pairs scaled_l1 period1_reps period2_reps);
             APD4 = np_mean (pairs scaled_canberra period1_reps period2_reps);
             APD2 = fscale (1 / 2)
                      (one_minus (matrix_mean (cosine_similarity period1_reps period2_reps)))
         in Scalar (fscale (1 / 4) (fadd (fadd (fadd APD1 APD2) APD3) APD4)))
      else EmptyList)"


section \<open>The libraries the code calls\<close>

text \<open>
  scikit-learn, numpy, scipy and kneed are not part of the repository. Their calls are
  total functions here: an exception raised inside a library is outside the model, which
  covers what the source itself raises (a \<^verbatim>\<open>raise\<close>, an unbound local, \<^verbatim>\<open>max\<close> of an
  empty sequence, an index or key that is not there, a zero divisor).
\<close>

text \<open>
  An estimator as the source constructs it. \<open>None\<close> is an argument the source leaves out,
  so that the library's default applies; \<open>random_state = None\<close> is the unseeded estimator.
\<close>

datatype estimator =
    KMeans int "int option" "string option" (random_state: "int option")
      \<comment> \<open>\<^verbatim>\<open>n_clusters\<close>, \<^verbatim>\<open>max_iter\<close>, \<^verbatim>\<open>algorithm\<close>, \<^verbatim>\<open>random_state\<close>\<close>
  | GaussianMixture int "string option" "real option" (random_state: "int option")
      \<comment> \<open>\<^verbatim>\<open>n_components\<close>, \<^verbatim>\<open>covariance_type\<close>, \<^verbatim>\<open>reg_covar\<close>, \<^verbatim>\<open>random_state\<close>\<close>

text \<open>
  What the source reads off a fitted estimator: \<^verbatim>\<open>labels_\<close> (which \<^verbatim>\<open>fit_predict\<close> returns),
  \<^verbatim>\<open>inertia_\<close> and \<^verbatim>\<open>bic(data)\<close>.
\<close>

record fitted =
  fit_labels :: "int list"
  fit_inertia :: real
  fit_bic :: real

text \<open>
  The library functions, over a type \<open>'g\<close> of states of a pseudo-random generator:
  \<^item> \<open>RandomState seed\<close>: the state of a fresh generator seeded with \<open>seed\<close>;
  \<^item> \<open>fit_from est data g\<close>: the fit of \<open>est\<close> to \<open>data\<close> drawing from a generator in
    state \<open>g\<close>, and the state the generator is left in;
  \<^item> \<open>silhouette_score data labels\<close>;
  \<^item> \<open>all_elbows x y\<close>: \<^verbatim>\<open>KneeLocator(x, y, curve='convex', direction='decreasing').all_elbows\<close>;
  \<^item> \<open>apply_PCA X dim\<close>: the reducer of the repository's \<^verbatim>\<open>utils\<close> module, taken as a
    parameter like the library functions.
\<close>

record 'g sklearn =
  RandomState :: "int \<Rightarrow> 'g"
  fit_from :: "estimator \<Rightarrow> point list \<Rightarrow> 'g \<Rightarrow> fitted \<times> 'g"
  silhouette_score :: "point list \<Rightarrow> int list \<Rightarrow> real"
  all_elbows :: "int list \<Rightarrow> real list \<Rightarrow> int list"
  apply_PCA :: "point list \<Rightarrow> int \<Rightarrow> point list"

text \<open>
  \<^verbatim>\<open>clusterer.fit(data)\<close> in a process whose global generator is in state \<open>g\<close>. An
  estimator built with an integer \<^verbatim>\<open>random_state\<close> draws from a fresh generator seeded
  with it and leaves the global one alone; one built without draws from the global
  generator and advances it.
\<close>

definition seeded_fit :: "'g sklearn \<Rightarrow> estimator \<Rightarrow> int \<Rightarrow> point list \<Rightarrow> fitted" where
  "seeded_fit lib clusterer seed data = fst (fit_from lib clusterer data (RandomState lib seed))"

definition fit :: "'g sklearn \<Rightarrow> estimator \<Rightarrow> point list \<Rightarrow> 'g \<Rightarrow> fitted \<times> 'g" where
  "fit lib clusterer data g =
     (case random_state clusterer of
        None \<Rightarrow> fit_from lib clusterer data g
      | Some seed \<Rightarrow> (seeded_fit lib clusterer seed data, g))"

definition fit_predict :: "'g sklearn \<Rightarrow> estimator \<Rightarrow> point list \<Rightarrow> 'g \<Rightarrow> int list \<times> 'g" where
  "fit_predict lib clusterer data g =
     (case fit lib clusterer data g of (m, g') \<Rightarrow> (fit_labels m, g'))"

text \<open>
  Python's \<^verbatim>\<open>max(values)\<close> and \<^verbatim>\<open>max(d, key=d.get)\<close> on a dict kept as an association
  list in insertion order: the first maximal element wins, an empty argument raises
  \<^verbatim>\<open>ValueError\<close>.
\<close>

fun max_from :: "real \<Rightarrow> real list \<Rightarrow> real" where
  "max_from m [] = m"
| "max_from m (v # vs) = (if v > m then max_from v vs else max_from m vs)"

definition py_max :: "real list \<Rightarrow> error + real" where
  "py_max vs = (case vs of [] \<Rightarrow> Inl ValueError | v # vs' \<Rightarrow> Inr (max_from v vs'))"

fun max_key_from :: "'k \<Rightarrow> real \<Rightarrow> ('k \<times> real) list \<Rightarrow> 'k" where
  "max_key_from k m [] = k"
| "max_key_from k m ((k', v) # d) =
     (if v > m then max_key_from k' v d else max_key_from k m d)"

definition py_max_key :: "('k \<times> real) list \<Rightarrow> error + 'k" where
  "py_max_key d = (case d of [] \<Rightarrow> Inl ValueError | (k, v) # d' \<Rightarrow> Inr (max_key_from k v d'))"


section \<open>Scoring orchestrator: \<^verbatim>\<open>get_APD_scores\<close>\<close>

text \<open>
  A corpus representation store maps a word to its embeddings
  (\<^verbatim>\<open>elem.detach().numpy()\<close> of each element is the point itself). The result is the dict
  of the two columns \<^verbatim>\<open>"word"\<close> and \<^verbatim>\<open>"combined_APD"\<close>. The parameter \<^verbatim>\<open>dim\<close> is
  \<open>pca_dim\<close> here.
\<close>

record scores =
  word :: "string list"
  combined_APD :: "apd list"

fun APD_scores_loop ::
  "'g sklearn \<Rightarrow> (string \<rightharpoonup> point list) \<Rightarrow> (string \<rightharpoonup> point list) \<Rightarrow> int \<Rightarrow> int
     \<Rightarrow> string list \<Rightarrow> scores \<Rightarrow> scores" where
  "APD_scores_loop lib corpus1_reps corpus2_reps pca_dim min_tweets [] scores = scores"
| "APD_scores_loop lib corpus1_reps corpus2_reps pca_dim min_tweets (target # targets) scores =
     (if corpus1_reps target = None \<or> corpus2_reps target = None
      then APD_scores_loop lib corpus1_reps corpus2_reps pca_dim min_tweets targets scores
      else
        (case (corpus1_reps target, corpus2_reps target) of
           (Some X1, Some X2) \<Rightarrow>
             (let X = X1 @ X2 in
              if int (length X1) \<le> min_tweets \<or> int (length X2) \<le> min_tweets
              then APD_scores_loop lib corpus1_reps corpus2_reps pca_dim min_tweets targets scores
              else
                (let scores1 = scores\<lparr>word := word scores @ [target]\<rparr>;
                     X_reduced = apply_PCA lib X pca_dim;
                     scores2 = scores1\<lparr>combined_APD := combined_APD scores1 @
                       [compute_average_pairwise_difference
                          (take (length X1) X_reduced) (drop (length X1) X_reduced)
                          ''combined2'']\<rparr>
                 in APD_scores_loop lib corpus1_reps corpus2_reps pca_dim min_tweets targets scores2))
         | _ \<Rightarrow> APD_scores_loop lib corpus1_reps corpus2_reps pca_dim min_tweets targets scores))"

definition get_APD_scores ::
  "'g sklearn \<Rightarrow> (string \<rightharpoonup> point list) \<Rightarrow> (string \<rightharpoonup> point list) \<Rightarrow> string list
     \<Rightarrow> int \<Rightarrow> int \<Rightarrow> scores" where
  "get_APD_scores lib corpus1_reps corpus2_reps targets pca_dim min_tweets =
     APD_scores_loop lib corpus1_reps corpus2_reps pca_dim min_tweets targets
       \<lparr>word = [], combined_APD = []\<rparr>"

text \<open>
  The specification's filter: a word is omitted when either store lacks it or either
  period's sample count is at or below the threshold.
\<close>

definition omitted ::
  "(string \<rightharpoonup> point list) \<Rightarrow> (string \<rightharpoonup> point list) \<Rightarrow> int \<Rightarrow> string \<Rightarrow> bool" where
  "omitted corpus1_reps corpus2_reps min_tweets target =
     (case corpus1_reps target of
        None \<Rightarrow> True
      | Some period1 \<Rightarrow>
          (case corpus2_reps target of
             None \<Rightarrow> True
           | Some period2 \<Rightarrow>
               int (length period1) \<le> min_tweets \<or> int (length period2) \<le> min_tweets))"


section \<open>Model selection\<close>

subsection \<open>Policy C: \<^verbatim>\<open>get_kmeans_cluster_labels\<close>\<close>

text \<open>
  The loop state is \<open>(best_score, best_K, cluster_labels)\<close>. The estimator is built
  without a \<^verbatim>\<open>random_state\<close>. \<^verbatim>\<open>np.zeros(len(data))\<close> is the list of that many zeros.
\<close>

fun kmeans_labels_loop ::
  "'g sklearn \<Rightarrow> point list \<Rightarrow> int list \<Rightarrow> real \<times> int \<times> int list \<Rightarrow> 'g
     \<Rightarrow> (real \<times> int \<times> int list) \<times> 'g" where
  "kmeans_labels_loop lib data [] st g = (st, g)"
| "kmeans_labels_loop lib data (K # Ks) (best_score, best_K, cluster_labels) g =
     (let clusterer = KMeans K None None None in
      case fit_predict lib clusterer data g of
        (curr_cluster_labels, g') \<Rightarrow>
          (let curr_score = silhouette_score lib data curr_cluster_labels in
           if curr_score > best_score
           then kmeans_labels_loop lib data Ks (curr_score, K, curr_cluster_labels) g'
           else kmeans_labels_loop lib data Ks (best_score, best_K, cluster_labels) g'))"

definition get_kmeans_cluster_labels ::
  "'g sklearn \<Rightarrow> point list \<Rightarrow> int list \<Rightarrow> 'g \<Rightarrow> (int list \<times> int) \<times> 'g" where
  "get_kmeans_cluster_labels lib data Ks g =
     (case kmeans_labels_loop lib data Ks (1 / 10, 1, replicate (length data) 0) g of
        ((best_score, best_K, cluster_labels), g') \<Rightarrow> ((cluster_labels, best_K), g'))"

subsection \<open>Policy A in \<^verbatim>\<open>semantic_change.py\<close>\<close>

definition get_clusterer :: "string \<Rightarrow> int \<Rightarrow> int \<Rightarrow> error + estimator" where
  "get_clusterer model K seed =
     (if model = ''kmeans'' then Inr (KMeans K None None (Some seed))
      else if model = ''gmm'' then Inr (GaussianMixture K None None (Some seed))
      else Inl NameError)"

text \<open>
  What \<^verbatim>\<open>get_clusters_by_silhouette\<close> hands back: the triple of labels, K and silhouette,
  or (in \<^verbatim>\<open>semantic_change_scores.py\<close>) an exception object that is returned, not raised.
\<close>

datatype returned = Triple "int list" int real | ExceptionObject error

text \<open>The inner loop over the seeds fills the dict \<^verbatim>\<open>silhouette_scores_K\<close>.\<close>

fun seed_loop ::
  "'g sklearn \<Rightarrow> point list \<Rightarrow> string \<Rightarrow> int \<Rightarrow> int list \<Rightarrow> (int \<times> real) list \<Rightarrow> 'g
     \<Rightarrow> (error + (int \<times> real) list) \<times> 'g" where
  "seed_loop lib data model K [] silhouette_scores_K g = (Inr silhouette_scores_K, g)"
| "seed_loop lib data model K (seed # seeds) silhouette_scores_K g =
     (case get_clusterer model K seed of
        Inl e \<Rightarrow> (Inl e, g)
      | Inr clusterer \<Rightarrow>
          (case fit_predict lib clusterer data g of
             (cluster_labels, g') \<Rightarrow>
               seed_loop lib data model K seeds
                 (AList.update seed (silhouette_score lib data cluster_labels) silhouette_scores_K)
                 g'))"

text \<open>
  The outer loop over \<^verbatim>\<open>Ks\<close>. Its state is \<open>(silhouette_scores, best_seeds, K)\<close>: the two
  dicts and the loop variable \<^verbatim>\<open>K\<close>, which Python keeps after the loop (\<open>None\<close> while
  it is unbound).
\<close>

fun K_loop ::
  "'g sklearn \<Rightarrow> point list \<Rightarrow> string \<Rightarrow> int list \<Rightarrow> int list
     \<Rightarrow> (int \<times> real) list \<times> (int \<times> int) list \<times> int option \<Rightarrow> 'g
     \<Rightarrow> (error + (int \<times> real) list \<times> (int \<times> int) list \<times> int option) \<times> 'g" where
  "K_loop lib data model seeds [] st g = (Inr st, g)"
| "K_loop lib data model seeds (K # Ks) (silhouette_scores, best_seeds, _) g =
     (case seed_loop lib data model K seeds [] g of
        (Inl e, g') \<Rightarrow> (Inl e, g')
      | (Inr silhouette_scores_K, g') \<Rightarrow>
          (case py_max (map snd silhouette_scores_K) of
             Inl e \<Rightarrow> (Inl e, g')
           | Inr best \<Rightarrow>
               (case py_max_key silhouette_scores_K of
                  Inl e \<Rightarrow> (Inl e, g')
                | Inr best_seed \<Rightarrow>
                    K_loop lib data model seeds Ks
                      (AList.update K best silhouette_scores,
                       AList.update K best_seed best_seeds, Some K) g')))"

definition get_clusters_by_silhouette ::
  "'g sklearn \<Rightarrow> point list \<Rightarrow> string \<Rightarrow> int \<Rightarrow> int \<Rightarrow> int list \<Rightarrow> real \<Rightarrow> 'g
     \<Rightarrow> (error + returned) \<times> 'g" where
  "get_clusters_by_silhouette lib data model k_min k_max seeds threshold g =
     (case K_loop lib data model seeds [k_min..k_max] ([], [], None) g of
        (Inl e, g') \<Rightarrow> (Inl e, g')
      | (Inr (silhouette_scores, best_seeds, K), g') \<Rightarrow>
          (case py_max (map snd silhouette_scores) of
             Inl e \<Rightarrow> (Inl e, g')
           | Inr best_silhouette \<Rightarrow>
               if best_silhouette < threshold
               then (Inr (Triple (replicate (length data) 0) 1 0), g')
               else
                 (case py_max_key silhouette_scores of
                    Inl e \<Rightarrow> (Inl e, g')
                  | Inr best_K \<Rightarrow>
                      (case map_of best_seeds best_K of
                         None \<Rightarrow> (Inl KeyError, g')
                       | Some seed \<Rightarrow>
                           (case K of
                              None \<Rightarrow> (Inl UnboundLocalError, g')
                            | Some K \<Rightarrow>
                                (case get_clusterer model K seed of
                                   Inl e \<Rightarrow> (Inl e, g')
                                 | Inr clusterer \<Rightarrow>
                                     (case fit_predict lib clusterer data g' of
                                        (cluster_labels, g'') \<Rightarrow>
                                          (Inr (Triple cluster_labels best_K best_silhouette),
                                           g''))))))))"

subsection \<open>Policy A in \<^verbatim>\<open>semantic_change_scores.py\<close>\<close>

text \<open>
  The same function with the estimator built in line. A loop ends by raising, by
  returning from the function, or normally with its state; the state carries the
  variable \<^verbatim>\<open>clusterer\<close>, which the refit reads when neither branch of its \<^verbatim>\<open>if\<close>
  assigns it.
\<close>

datatype abrupt = Raise error | Return returned

fun scores_seed_loop ::
  "'g sklearn \<Rightarrow> point list \<Rightarrow> string \<Rightarrow> int \<Rightarrow> int list
     \<Rightarrow> (int \<times> real) list \<times> estimator option \<Rightarrow> 'g
     \<Rightarrow> (abrupt + (int \<times> real) list \<times> estimator option) \<times> 'g" where
  "scores_seed_loop lib data model K [] st g = (Inr st, g)"
| "scores_seed_loop lib data model K (seed # seeds) (silhouette_scores_K, _) g =
     (case (if model = ''kmeans'' then Inr (KMeans K None None (Some seed))
            else if model = ''gmm'' then Inr (GaussianMixture K None None (Some seed))
            else Inl (Return (ExceptionObject NameError))) of
        Inl a \<Rightarrow> (Inl a, g)
      | Inr clusterer \<Rightarrow>
          (case fit_predict lib clusterer data g of
             (cluster_labels, g') \<Rightarrow>
               scores_seed_loop lib data model K seeds
                 (AList.update seed (silhouette_score lib data cluster_labels) silhouette_scores_K,
                  Some clusterer) g'))"

fun scores_K_loop ::
  "'g sklearn \<Rightarrow> point list \<Rightarrow> string \<Rightarrow> int list \<Rightarrow> int list
     \<Rightarrow> (int \<times> real) list \<times> (int \<times> int) list \<times> estimator option \<Rightarrow> 'g
     \<Rightarrow> (abrupt + (int \<times> real) list \<times> (int \<times> int) list \<times> estimator option) \<times> 'g" where
  "scores_K_loop lib data model seeds [] st g = (Inr st, g)"
| "scores_K_loop lib data model seeds (K # Ks) (silhouette_scores, best_seeds, clusterer) g =
     (case scores_seed_loop lib data model K seeds ([], clusterer) g of
        (Inl a, g') \<Rightarrow> (Inl a, g')
      | (Inr (silhouette_scores_K, clusterer'), g') \<Rightarrow>
          (case py_max (map snd silhouette_scores_K) of
             Inl e \<Rightarrow> (Inl (Raise e), g')
           | Inr best \<Rightarrow>
               (case py_max_key silhouette_scores_K of
                  Inl e \<Rightarrow> (Inl (Raise e), g')
                | Inr best_seed \<Rightarrow>
                    scores_K_loop lib data model seeds Ks
                      (AList.update K best silhouette_scores,
                       AList.update K best_seed best_seeds, clusterer') g')))"

definition scores_get_clusters_by_silhouette ::
  "'g sklearn \<Rightarrow> point list \<Rightarrow> string \<Rightarrow> int \<Rightarrow> int \<Rightarrow> int list \<Rightarrow> real \<Rightarrow> 'g
     \<Rightarrow> (error + returned) \<times> 'g" where
  "scores_get_clusters_by_silhouette lib data model k_min k_max seeds threshold g =
     (case scores_K_loop lib data model seeds [k_min..k_max] ([], [], None) g of
        (Inl (Raise e), g') \<Rightarrow> (Inl e, g')
      | (Inl (Return r), g') \<Rightarrow> (Inr r, g')
      | (Inr (silhouette_scores, best_seeds, clusterer), g') \<Rightarrow>
          (case py_max (map snd silhouette_scores) of
             Inl e \<Rightarrow> (Inl e, g')
           | Inr best_silhouette \<Rightarrow>
               if best_silhouette < threshold
               then (Inr (Triple (replicate (length data) 0) 1 0), g')
               else
                 (case py_max_key silhouette_scores of
                    Inl e \<Rightarrow> (Inl e, g')
                  | Inr best_K \<Rightarrow>
                      (case map_of best_seeds best_K of
                         None \<Rightarrow> (Inl KeyError, g')
                       | Some seed \<Rightarrow>
                           (case (if model = ''kmeans''
                                  then Some (KMeans best_K None None (Some seed))
                                  else if model = ''gmm''
                                  then Some (GaussianMixture best_K None None (Some seed))
                                  else clusterer) of
                              None \<Rightarrow> (Inl UnboundLocalError, g')
                            | Some clusterer \<Rightarrow>
                                (case fit_predict lib clusterer data g' of
                                   (cluster_labels, g'') \<Rightarrow>
                                     (Inr (Triple cluster_labels best_K best_silhouette),
                                      g'')))))))"


subsection \<open>Policy B: \<^verbatim>\<open>get_clusters_by_score\<close>\<close>

text \<open>The loop of \<^verbatim>\<open>choose_kmeans_k_with_elbow\<close> appends one inertia per \<open>k\<close>.\<close>

fun SSD_loop ::
  "'g sklearn \<Rightarrow> point list \<Rightarrow> int \<Rightarrow> int \<Rightarrow> string \<Rightarrow> int list \<Rightarrow> real list \<Rightarrow> 'g
     \<Rightarrow> real list \<times> 'g" where
  "SSD_loop lib data max_iter seed algorithm [] SSD_scores g = (SSD_scores, g)"
| "SSD_loop lib data max_iter seed algorithm (k # ks) SSD_scores g =
     (let clusterer = KMeans k (Some max_iter) (Some algorithm) (Some seed) in
      case fit lib clusterer data g of
        (m, g') \<Rightarrow>
          SSD_loop lib data max_iter seed algorithm ks (SSD_scores @ [fit_inertia m]) g')"

definition choose_kmeans_k_with_elbow ::
  "'g sklearn \<Rightarrow> point list \<Rightarrow> int \<Rightarrow> int \<Rightarrow> int \<Rightarrow> int \<Rightarrow> string \<Rightarrow> 'g \<Rightarrow> int \<times> 'g" where
  "choose_kmeans_k_with_elbow lib data k_min k_max max_iter seed algorithm g =
     (case SSD_loop lib data max_iter seed algorithm [k_min..k_max] [] g of
        (SSD_scores, g') \<Rightarrow>
          (let elbows = all_elbows lib [k_min..k_max] SSD_scores in
           (case elbows of [] \<Rightarrow> k_max | e # es \<Rightarrow> fold min es e, g')))"

text \<open>
  \<^verbatim>\<open>choose_gmm_params_with_bic\<close>. The state of its loops is
  \<open>(bic_scores, lowest_bic, best_K, best_cv)\<close>; \<open>lowest_bic = None\<close> is \<^verbatim>\<open>np.infty\<close>, and
  \<open>best_K\<close>, \<open>best_cv\<close> are \<open>None\<close> while unbound.
\<close>

type_synonym bic_state = "real list \<times> real option \<times> int option \<times> string option"

fun cv_loop ::
  "'g sklearn \<Rightarrow> point list \<Rightarrow> int \<Rightarrow> int \<Rightarrow> string list \<Rightarrow> bic_state \<Rightarrow> 'g
     \<Rightarrow> bic_state \<times> 'g" where
  "cv_loop lib data seed k [] st g = (st, g)"
| "cv_loop lib data seed k (cv # cvs) (bic_scores, lowest_bic, best_K, best_cv) g =
     (let clusterer = GaussianMixture k (Some cv) (Some (1 / 10000)) (Some seed) in
      case fit lib clusterer data g of
        (m, g') \<Rightarrow>
          (let bic_scores' = bic_scores @ [fit_bic m] in
           if (case lowest_bic of None \<Rightarrow> True | Some lowest \<Rightarrow> last bic_scores' < lowest)
           then cv_loop lib data seed k cvs
                  (bic_scores', Some (last bic_scores'), Some k, Some cv) g'
           else cv_loop lib data seed k cvs (bic_scores', lowest_bic, best_K, best_cv) g'))"

fun bic_loop ::
  "'g sklearn \<Rightarrow> point list \<Rightarrow> int \<Rightarrow> string list \<Rightarrow> int list \<Rightarrow> bic_state \<Rightarrow> 'g
     \<Rightarrow> bic_state \<times> 'g" where
  "bic_loop lib data seed covariance_types [] st g = (st, g)"
| "bic_loop lib data seed covariance_types (k # ks) st g =
     (case cv_loop lib data seed k covariance_types st g of
        (st', g') \<Rightarrow> bic_loop lib data seed covariance_types ks st' g')"

definition choose_gmm_params_with_bic ::
  "'g sklearn \<Rightarrow> point list \<Rightarrow> int \<Rightarrow> int \<Rightarrow> int \<Rightarrow> bool \<Rightarrow> 'g
     \<Rightarrow> (error + int \<times> string \<times> real list option) \<times> 'g" where
  "choose_gmm_params_with_bic lib data k_min k_max seed verbose g =
     (let Ks = [k_min..k_max];
          covariance_types = [''spherical'', ''tied'', ''diag'', ''full'']
      in case bic_loop lib data seed covariance_types Ks ([], None, None, None) g of
           ((bic_scores, lowest_bic, best_K, best_cv), g') \<Rightarrow>
             (case best_K of
                None \<Rightarrow> (Inl UnboundLocalError, g')
              | Some K \<Rightarrow>
                  (case best_cv of
                     None \<Rightarrow> (Inl UnboundLocalError, g')
                   | Some cv \<Rightarrow>
                       (Inr (K, cv, if verbose then Some bic_scores else None), g'))))"

text \<open>
  The K-means branch of \<^verbatim>\<open>get_clusters_by_score\<close>: the state is
  \<open>(best_silhouette, best_K, best_cluster_labels)\<close>, the last two unbound at the start.
\<close>

fun score_seed_loop ::
  "'g sklearn \<Rightarrow> point list \<Rightarrow> int \<Rightarrow> int \<Rightarrow> int list
     \<Rightarrow> real \<times> int option \<times> int list option \<Rightarrow> 'g
     \<Rightarrow> (real \<times> int option \<times> int list option) \<times> 'g" where
  "score_seed_loop lib data k_min k_max [] st g = (st, g)"
| "score_seed_loop lib data k_min k_max (seed # seeds)
       (best_silhouette, best_K, best_cluster_labels) g =
     (case choose_kmeans_k_with_elbow lib data k_min k_max 200 seed ''auto'' g of
        (K, g1) \<Rightarrow>
          (let clusterer = KMeans K None None (Some seed) in
           case fit_predict lib clusterer data g1 of
             (cluster_labels, g2) \<Rightarrow>
               (let silhouette = silhouette_score lib data cluster_labels in
                if silhouette > best_silhouette
                then score_seed_loop lib data k_min k_max seeds
                       (silhouette, Some K, Some cluster_labels) g2
                else score_seed_loop lib data k_min k_max seeds
                       (best_silhouette, best_K, best_cluster_labels) g2)))"

definition get_clusters_by_score ::
  "'g sklearn \<Rightarrow> point list \<Rightarrow> string \<Rightarrow> int \<Rightarrow> int \<Rightarrow> int list \<Rightarrow> 'g
     \<Rightarrow> (error + int list \<times> int) \<times> 'g" where
  "get_clusters_by_score lib data model k_min k_max seeds g =
     (if model = ''kmeans'' then
        (case score_seed_loop lib data k_min k_max seeds (0, None, None) g of
           ((best_silhouette, best_K, best_cluster_labels), g') \<Rightarrow>
             (case best_cluster_labels of
                None \<Rightarrow> (Inl UnboundLocalError, g')
              | Some labels \<Rightarrow>
                  (case best_K of
                     None \<Rightarrow> (Inl UnboundLocalError, g')
                   | Some K \<Rightarrow> (Inr (labels, K), g'))))
      else if model = ''gmm'' then
        (case seeds of
           [] \<Rightarrow> (Inl IndexError, g)
         | seed0 # _ \<Rightarrow>
             (case choose_gmm_params_with_bic lib data k_min k_max seed0 False g of
                (Inl e, g') \<Rightarrow> (Inl e, g')
              | (Inr (best_K, best_cv, _), g') \<Rightarrow>
                  (let clusterer =
                         GaussianMixture best_K (Some best_cv) (Some (1 / 10000)) (Some seed0)
                   in case fit_predict lib clusterer data g' of
                        (best_cluster_labels, g'') \<Rightarrow> (Inr (best_cluster_labels, best_K), g''))))
      else (Inl UnboundLocalError, g))"

text \<open>
  The silhouette of one seed's refit, as one pass of the loop body computes it: the elbow
  K for the seed, K-means refitted at that K with the seed, and the score of its labels.
\<close>

definition refit_silhouette ::
  "'g sklearn \<Rightarrow> point list \<Rightarrow> int \<Rightarrow> int \<Rightarrow> int \<Rightarrow> 'g \<Rightarrow> real" where
  "refit_silhouette lib data k_min k_max seed g =
     (case choose_kmeans_k_with_elbow lib data k_min k_max 200 seed ''auto'' g of
        (K, g1) \<Rightarrow>
          (case fit_predict lib (KMeans K None None (Some seed)) data g1 of
             (cluster_labels, g2) \<Rightarrow> silhouette_score lib data cluster_labels))"


subsection \<open>The grid of Policy A, cell by cell\<close>

text \<open>
  The notions the claims about Policy A speak of: the estimator of the grid cell
  \<open>(K, seed)\<close> for a model name that is \<^verbatim>\<open>kmeans\<close> or \<^verbatim>\<open>gmm\<close>, the labels of its fit and
  their silhouette score.
\<close>

definition grid_estimator :: "string \<Rightarrow> int \<Rightarrow> int \<Rightarrow> estimator" where
  "grid_estimator model K seed =
     (if model = ''kmeans'' then KMeans K None None (Some seed)
      else GaussianMixture K None None (Some seed))"

definition grid_labels :: "'g sklearn \<Rightarrow> point list \<Rightarrow> string \<Rightarrow> int \<Rightarrow> int \<Rightarrow> int list" where
  "grid_labels lib data model K seed =
     fit_labels (seeded_fit lib (grid_estimator model K seed) seed data)"

definition grid_score :: "'g sklearn \<Rightarrow> point list \<Rightarrow> string \<Rightarrow> int \<Rightarrow> int \<Rightarrow> real" where
  "grid_score lib data model K seed =
     silhouette_score lib data (grid_labels lib data model K seed)"

text \<open>
  The dicts the loops build, as functions of the grid: \<^verbatim>\<open>silhouette_scores_K\<close> after the
  inner loop, and the maximum and the first key of the maximum of a non-empty dict.
\<close>

definition row_scores ::
  "'g sklearn \<Rightarrow> point list \<Rightarrow> string \<Rightarrow> int list \<Rightarrow> int \<Rightarrow> (int \<times> real) list" where
  "row_scores lib data model seeds K =
     fold (\<lambda>seed. AList.update seed (grid_score lib data model K seed)) seeds []"

definition dict_max :: "('k \<times> real) list \<Rightarrow> real" where
  "dict_max d = (case d of [] \<Rightarrow> 0 | (k, v) # d' \<Rightarrow> max_from v (map snd d'))"

definition dict_argmax :: "('k \<times> real) list \<Rightarrow> 'k \<Rightarrow> 'k" where
  "dict_argmax d k0 = (case d of [] \<Rightarrow> k0 | (k, v) # d' \<Rightarrow> max_key_from k v d')"

definition row_best :: "'g sklearn \<Rightarrow> point list \<Rightarrow> string \<Rightarrow> int list \<Rightarrow> int \<Rightarrow> real" where
  "row_best lib data model seeds K = dict_max (row_scores lib data model seeds K)"

definition row_seed :: "'g sklearn \<Rightarrow> point list \<Rightarrow> string \<Rightarrow> int list \<Rightarrow> int \<Rightarrow> int" where
  "row_seed lib data model seeds K = dict_argmax (row_scores lib data model seeds K) 0"

text \<open>
  \<^verbatim>\<open>silhouette_scores\<close> after the outer loop, the best silhouette of the grid and the
  first \<open>K\<close> that reaches it.
\<close>

definition grid_scores ::
  "'g sklearn \<Rightarrow> point list \<Rightarrow> string \<Rightarrow> int list \<Rightarrow> int list \<Rightarrow> (int \<times> real) list" where
  "grid_scores lib data model seeds Ks =
     fold (\<lambda>K. AList.update K (row_best lib data model seeds K)) Ks []"

definition grid_best :: "'g sklearn \<Rightarrow> point list \<Rightarrow> string \<Rightarrow> int list \<Rightarrow> int list \<Rightarrow> real" where
  "grid_best lib data model seeds Ks = dict_max (grid_scores lib data model seeds Ks)"

definition grid_best_K :: "'g sklearn \<Rightarrow> point list \<Rightarrow> string \<Rightarrow> int list \<Rightarrow> int list \<Rightarrow> int" where
  "grid_best_K lib data model seeds Ks = dict_argmax (grid_scores lib data model seeds Ks) 0"


subsection \<open>A small library instance\<close>

text \<open>
  An instance of the library interface on which the functions can be run. The generator
  state is a number; a fit puts point \<open>i\<close> into cluster \<open>((i + g) div 2) mod K\<close> and advances the
  generator; the score of a labelling is handed in, \<open>inverse_label_count\<close> being one that
  prefers few clusters.
\<close>

definition toy_fit :: "estimator \<Rightarrow> point list \<Rightarrow> nat \<Rightarrow> fitted \<times> nat" where
  "toy_fit est data g =
     (let K = (case est of KMeans K _ _ _ \<Rightarrow> nat K | GaussianMixture K _ _ _ \<Rightarrow> nat K)
      in (\<lparr>fit_labels = map (\<lambda>i. int (((i + g) div 2) mod K)) [0..<length data],
           fit_inertia = 0, fit_bic = 0\<rparr>, Suc g))"

definition toy :: "(int list \<Rightarrow> real) \<Rightarrow> nat sklearn" where
  "toy score =
     \<lparr>RandomState = (\<lambda>seed. nat \<bar>seed\<bar>),
      fit_from = toy_fit,
      silhouette_score = (\<lambda>data labels. score labels),
      all_elbows = (\<lambda>x y. []),
      apply_PCA = (\<lambda>X dim. X)\<rparr>"

definition inverse_label_count :: "int list \<Rightarrow> real" where
  "inverse_label_count labels = 1 / real (length (remdups labels))"


section \<open>Float arithmetic with rounding\<close>

text \<open>
  A float operation of the program is the exact operation on reals followed by a
  rounding. The definitions above are the reading with exact arithmetic; the definitions
  of this section, prefixed \<open>fl\<close>, take the rounding \<open>rnd\<close> as a parameter and are the same
  translations of the source with every float operation rounded. The program runs them
  with \<open>double\<close>, rounding to the nearest IEEE binary64 number, ties to the even
  significand; \<open>exact_arithmetic\<close> is no rounding at all. The exponent is not bounded
  (no overflow, no subnormal numbers).
\<close>

definition round_even :: "real \<Rightarrow> int" where
  "round_even y =
     (let f = \<lfloor>y\<rfloor> in
      if y - of_int f < 1 / 2 then f
      else if y - of_int f > 1 / 2 then f + 1
      else if even f then f else f + 1)"

definition double :: "real \<Rightarrow> real" where
  "double x =
     (if x = 0 then 0
      else (let u = 2 powr of_int (\<lfloor>log 2 \<bar>x\<bar>\<rfloor> - 52)
            in sgn x * of_int (round_even (\<bar>x\<bar> / u)) * u))"


text \<open>
  A sum of floats: the accumulator starts at 0 and takes the terms in index order (the
  blocked summation numpy uses on arrays of eight elements and more is left out).
\<close>

definition fl_sum :: "(real \<Rightarrow> real) \<Rightarrow> real list \<Rightarrow> real" where
  "fl_sum rnd xs = foldl (\<lambda>s x. rnd (s + x)) 0 xs"

subsection \<open>Categorical fitter\<close>

text \<open>
  \<^verbatim>\<open>count / period1_length\<close> on two Python ints is the float nearest to the quotient.
  The rest of \<^verbatim>\<open>fit_categoricals_from_clusters\<close> handles labels and counts only.
\<close>

definition fl_truediv :: "(real \<Rightarrow> real) \<Rightarrow> nat \<Rightarrow> nat \<Rightarrow> error + real" where
  "fl_truediv rnd a b =
     (if b = 0 then Inl ZeroDivisionError else Inr (rnd (real a / real b)))"

definition fl_period_probs ::
  "(real \<Rightarrow> real) \<Rightarrow> int list \<Rightarrow> int list \<Rightarrow> nat \<Rightarrow> error + real list" where
  "fl_period_probs rnd labels period period_length =
     comprehension (\<lambda>(_, count). fl_truediv rnd count period_length)
       (period_counts labels period)"

definition fl_fit_categoricals_from_clusters ::
  "(real \<Rightarrow> real) \<Rightarrow> int list \<Rightarrow> nat \<Rightarrow> nat \<Rightarrow> error + (real list \<times> real list)" where
  "fl_fit_categoricals_from_clusters rnd cluster_assignments period1_length period2_length =
     (let labels = label_set cluster_assignments;
          period1 = take period1_length cluster_assignments
      in case fl_period_probs rnd labels period1 period1_length of
           Inl e \<Rightarrow> Inl e
         | Inr probs1 \<Rightarrow>
             (let period2 = drop period1_length cluster_assignments
              in case fl_period_probs rnd labels period2 period2_length of
                   Inl e \<Rightarrow> Inl e
                 | Inr probs2 \<Rightarrow> Inr (probs1, probs2)))"

subsection \<open>Average pairwise difference\<close>


definition fl_norm2 :: "(real \<Rightarrow> real) \<Rightarrow> point \<Rightarrow> real" where
  "fl_norm2 rnd x = rnd (sqrt (fl_sum rnd (map (\<lambda>c. rnd (c * c)) x)))"

















section \<open>Categorical fitter: proofs\<close>

lemma fold_count_step_distinct:
  "distinct (map fst c) \<Longrightarrow> distinct (map fst (fold count_step xs c))"
  by (induction xs arbitrary: c) (simp_all add: count_step_def distinct_update)

lemma fold_count_step_keys:
  "fst ` set (fold count_step xs c) = set xs \<union> fst ` set c"
  by (induction xs arbitrary: c) (auto simp: count_step_def dom_update)

lemma map_of_count_step:
  "map_of (count_step x c) l =
     (if l = x then Some (Suc (case map_of c x of None \<Rightarrow> 0 | Some n \<Rightarrow> n)) else map_of c l)"
  by (simp add: count_step_def update_conv' split: option.split)

lemma fold_count_step_map_of:
  "map_of (fold count_step xs c) l =
     (if l \<in> set xs
      then Some (count_list xs l + (case map_of c l of None \<Rightarrow> 0 | Some n \<Rightarrow> n))
      else map_of c l)"
proof (induction xs arbitrary: c)
  case Nil
  show ?case by simp
next
  case (Cons x xs)
  have "map_of (fold count_step (x # xs) c) l = map_of (fold count_step xs (count_step x c)) l"
    by simp
  also have "\<dots> = (if l \<in> set xs
      then Some (count_list xs l + (case map_of (count_step x c) l of None \<Rightarrow> 0 | Some n \<Rightarrow> n))
      else map_of (count_step x c) l)"
    by (rule Cons.IH)
  also have "\<dots> = (if l \<in> set (x # xs)
      then Some (count_list (x # xs) l + (case map_of c l of None \<Rightarrow> 0 | Some n \<Rightarrow> n))
      else map_of c l)"
    by (simp add: map_of_count_step)
  finally show ?case .
qed

lemma distinct_keys_Counter: "distinct (map fst (Counter xs))"
  by (simp add: Counter_def fold_count_step_distinct)

lemma keys_Counter: "fst ` set (Counter xs) = set xs"
  by (simp add: Counter_def fold_count_step_keys)

lemma map_of_Counter:
  "map_of (Counter xs) l = (if l \<in> set xs then Some (count_list xs l) else None)"
  by (simp add: Counter_def fold_count_step_map_of)

lemma set_Counter: "set (Counter xs) = (\<lambda>l. (l, count_list xs l)) ` set xs"
proof (rule set_eqI)
  fix p :: "'a \<times> nat"
  obtain l n where p: "p = (l, n)" by (cases p)
  have "(l, n) \<in> set (Counter xs) \<longleftrightarrow> map_of (Counter xs) l = Some n"
    using distinct_keys_Counter [of xs] by simp
  also have "\<dots> \<longleftrightarrow> l \<in> set xs \<and> n = count_list xs l"
    by (auto simp: map_of_Counter)
  finally show "p \<in> set (Counter xs) \<longleftrightarrow> p \<in> (\<lambda>l. (l, count_list xs l)) ` set xs"
    by (auto simp: p)
qed

lemma period_counts_eq:
  assumes sub: "set period \<subseteq> set labels" and dl: "distinct labels"
  shows "period_counts labels period =
           map (\<lambda>l. (l, count_list period l)) (sorted_list_of_set (set labels))"
proof -
  let ?zs = "filter (\<lambda>num. num \<notin> set (map fst (Counter period))) labels"
  let ?ps = "Counter period @ map (\<lambda>num. (num, 0)) ?zs"
  let ?f = "\<lambda>l. (l, count_list period l)"
  have keys: "set (map fst (Counter period)) = set period"
    using keys_Counter [of period] by simp
  have dist: "distinct (map fst ?ps)"
    using dl by (auto simp: distinct_keys_Counter comp_def keys)
  have zs: "set (map (\<lambda>num. (num, 0)) ?zs) = ?f ` (set labels - set period)"
  proof -
    have "set ?zs = set labels - set period"
      by (auto simp: keys_Counter)
    moreover have "\<And>l. l \<in> set labels - set period \<Longrightarrow> (l, 0) = ?f l"
      by simp
    ultimately show ?thesis
      by (simp only: set_map) (rule image_cong, simp_all)
  qed
  have "set ?ps = ?f ` set period \<union> ?f ` (set labels - set period)"
    unfolding set_append zs set_Counter ..
  also have "\<dots> = ?f ` (set period \<union> (set labels - set period))"
    by (simp only: image_Un)
  also have "set period \<union> (set labels - set period) = set labels"
    using sub by auto
  finally have set_ps: "set ?ps = ?f ` set labels" .
  have "sort ?ps = map ?f (sorted_list_of_set (set labels))"
  proof (rule sorted_distinct_set_unique)
    show "sorted (sort ?ps)" by simp
    show "distinct (sort ?ps)" using dist [unfolded distinct_map, THEN conjunct1] by (simp only: distinct_sort)
    have "sorted_wrt (<) (map ?f (sorted_list_of_set (set labels)))"
      unfolding sorted_wrt_map
      by (rule sorted_wrt_mono_rel [OF _ strict_sorted_list_of_set]) (simp add: less_prod_def)
    then show "sorted (map ?f (sorted_list_of_set (set labels)))"
      and "distinct (map ?f (sorted_list_of_set (set labels)))"
      by (simp_all add: strict_sorted_iff)
    show "set (sort ?ps) = set (map ?f (sorted_list_of_set (set labels)))"
      using set_ps by simp
  qed
  then show ?thesis by (simp add: period_counts_def)
qed


lemma comprehension_map: "comprehension f (map g xs) = comprehension (\<lambda>x. f (g x)) xs"
  by (induction xs) (simp_all split: sum.splits)

lemma comprehension_truediv:
  "0 < n \<Longrightarrow>
     comprehension (\<lambda>l. truediv (c l) n) ls = Inr (map (\<lambda>l. real (c l) / real n) ls)"
  by (induction ls) (simp_all add: truediv_def)

lemma period_probs_spec:
  assumes "set period \<subseteq> set cluster_assignments"
  shows "period_probs (label_set cluster_assignments) period n =
           spec_probs cluster_assignments period n"
proof -
  have "period_counts (label_set cluster_assignments) period =
          map (\<lambda>l. (l, count_list period l)) (sorted_list_of_set (set cluster_assignments))"
    using period_counts_eq [of period "label_set cluster_assignments"] assms
    by (simp add: label_set_def)
  then show ?thesis
    by (simp add: period_probs_def spec_probs_def comprehension_map)
qed

lemma fit_categoricals_refines_spec:
  "fit_categoricals_from_clusters xs p1 p2 = fit_categoricals_spec xs p1 p2"
  by (simp add: fit_categoricals_from_clusters_def fit_categoricals_spec_def Let_def
      period_probs_spec set_take_subset set_drop_subset split: sum.splits)

lemma spec_probs_positive:
  assumes n: "0 < n" and sub: "set period \<subseteq> set xs"
  shows "\<exists>probs. spec_probs xs period n = Inr probs \<and> length probs = card (set xs)
           \<and> real n * sum_list probs = real (length period)"
proof -
  let ?ls = "sorted_list_of_set (set xs)"
  let ?probs = "map (\<lambda>l. real (count_list period l) / real n) ?ls"
  have eq: "spec_probs xs period n = Inr ?probs"
    using n by (simp add: spec_probs_def comprehension_truediv)
  have len: "length ?probs = card (set xs)"
    by simp
  have "sum_list ?probs = (\<Sum>l\<in>set xs. real (count_list period l) / real n)"
    by (simp add: sum_list_distinct_conv_sum_set)
  also have "\<dots> = real (\<Sum>l\<in>set xs. count_list period l) / real n"
    by (simp add: sum_divide_distrib)
  also have "(\<Sum>l\<in>set xs. count_list period l) = length period"
    using sub by (simp add: sum_count_set)
  finally have "real n * sum_list ?probs = real (length period)"
    using n by simp
  with eq len show ?thesis by blast
qed

text \<open>
  C5. \<^verbatim>\<open>fit_categoricals_from_clusters\<close> does what the specification says for every
  assignment and every pair of period lengths: for each label of the whole assignment, in
  ascending order, the occurrences in the period (0 if absent) divided by the period
  length, raising where the division does. On \<^verbatim>\<open>[0,0,1,1,2]\<close> split 3 + 2 it returns
  \<^verbatim>\<open>[2/3,1/3,0]\<close> and \<^verbatim>\<open>[0,1/2,1/2]\<close>.
\<close>

theorem fit_categoricals_is_spec:
  "fit_categoricals_from_clusters xs p1 p2 = fit_categoricals_spec xs p1 p2 \<and>
   fit_categoricals_from_clusters [0, 0, 1, 1, 2] 3 2
     = Inr ([2 / 3, 1 / 3, 0], [0, 1 / 2, 1 / 2])"
proof
  show "fit_categoricals_from_clusters xs p1 p2 = fit_categoricals_spec xs p1 p2"
    by (rule fit_categoricals_refines_spec)
  show "fit_categoricals_from_clusters [0, 0, 1, 1, 2] 3 2
     = Inr ([2 / 3, 1 / 3, 0], [0, 1 / 2, 1 / 2])"
    by (simp add: fit_categoricals_from_clusters_def label_set_def period_probs_def
        period_counts_def Counter_def count_step_def truediv_def)
qed

text \<open>
  With exact quotients the two vectors are distributions: for positive period lengths
  that sum to the length of the assignment each vector sums to 1.
\<close>

lemma exact_quotients_distribution:
  assumes p1: "0 < p1" and p2: "0 < p2" and len: "p1 + p2 = length xs"
  shows "\<exists>probs1 probs2.
           fit_categoricals_from_clusters xs p1 p2 = Inr (probs1, probs2) \<and>
           length probs1 = length probs2 \<and> length probs1 = card (set xs) \<and>
           sum_list probs1 = 1 \<and> sum_list probs2 = 1"
proof -
  obtain probs1 where 1: "spec_probs xs (take p1 xs) p1 = Inr probs1"
    "length probs1 = card (set xs)" "real p1 * sum_list probs1 = real (length (take p1 xs))"
    using spec_probs_positive [OF p1 set_take_subset] by blast
  obtain probs2 where 2: "spec_probs xs (drop p1 xs) p2 = Inr probs2"
    "length probs2 = card (set xs)" "real p2 * sum_list probs2 = real (length (drop p1 xs))"
    using spec_probs_positive [OF p2 set_drop_subset] by blast
  have "length (take p1 xs) = p1" "length (drop p1 xs) = p2"
    using len by simp_all
  with 1(3) 2(3) p1 p2 have "sum_list probs1 = 1" "sum_list probs2 = 1"
    by simp_all
  moreover have "fit_categoricals_from_clusters xs p1 p2 = Inr (probs1, probs2)"
    by (simp add: fit_categoricals_refines_spec fit_categoricals_spec_def 1(1) 2(1))
  ultimately show ?thesis
    using 1(2) 2(2) by simp
qed

section \<open>Seeded fits\<close>

lemma fit_seeded:
  "random_state c = Some seed \<Longrightarrow> fit lib c data g = (seeded_fit lib c seed data, g)"
  by (simp add: fit_def)

lemma fit_predict_seeded:
  "random_state c = Some seed \<Longrightarrow>
     fit_predict lib c data g = (fit_labels (seeded_fit lib c seed data), g)"
  by (simp add: fit_predict_def fit_seeded)

lemma get_clusterer_valid:
  "model = ''kmeans'' \<or> model = ''gmm'' \<Longrightarrow>
     get_clusterer model K seed = Inr (grid_estimator model K seed)"
  by (auto simp: get_clusterer_def grid_estimator_def)

lemma get_clusterer_invalid:
  "model \<noteq> ''kmeans'' \<Longrightarrow> model \<noteq> ''gmm'' \<Longrightarrow> get_clusterer model K seed = Inl NameError"
  by (simp add: get_clusterer_def)

lemma random_state_grid_estimator: "random_state (grid_estimator model K seed) = Some seed"
  by (simp add: grid_estimator_def)

lemma fit_predict_grid:
  "fit_predict lib (grid_estimator model K seed) data g = (grid_labels lib data model K seed, g)"
  by (simp add: fit_predict_seeded [OF random_state_grid_estimator] grid_labels_def)

section \<open>Dicts\<close>

lemma fold_update_distinct:
  "distinct (map fst d) \<Longrightarrow> distinct (map fst (fold (\<lambda>k. AList.update k (f k)) ks d))"
  by (induction ks arbitrary: d) (simp_all add: distinct_update)

lemma fold_update_map_of:
  "map_of (fold (\<lambda>k. AList.update k (f k)) ks d) k =
     (if k \<in> set ks then Some (f k) else map_of d k)"
  by (induction ks arbitrary: d) (simp_all add: update_conv')

lemma fold_update_set:
  "set (fold (\<lambda>k. AList.update k (f k)) ks []) = (\<lambda>k. (k, f k)) ` set ks"
proof (rule set_eqI)
  fix p :: "'a \<times> 'b"
  obtain k v where p: "p = (k, v)" by (cases p)
  let ?d = "fold (\<lambda>k. AList.update k (f k)) ks []"
  have "distinct (map fst ?d)"
    by (rule fold_update_distinct) simp
  then have "(k, v) \<in> set ?d \<longleftrightarrow> map_of ?d k = Some v"
    by simp
  also have "\<dots> \<longleftrightarrow> k \<in> set ks \<and> v = f k"
    by (auto simp: fold_update_map_of)
  finally show "p \<in> set ?d \<longleftrightarrow> p \<in> (\<lambda>k. (k, f k)) ` set ks"
    by (auto simp: p)
qed

lemma fold_update_nonempty:
  "ks \<noteq> [] \<Longrightarrow> fold (\<lambda>k. AList.update k (f k)) ks [] \<noteq> []"
  using fold_update_set [of f ks] by (cases ks) auto

lemma max_from_fold: "max_from m vs = fold max vs m"
  by (induction vs arbitrary: m) (simp_all add: max_def not_less)

lemma max_from_Max: "max_from m vs = Max (insert m (set vs))"
  using Max.set_eq_fold [of m vs] by (simp add: max_from_fold)

lemma max_key_from_in:
  "(max_key_from k m d, max_from m (map snd d)) \<in> insert (k, m) (set d)"
proof (induction d arbitrary: k m)
  case Nil
  show ?case by simp
next
  case (Cons p d)
  obtain k' v where p: "p = (k', v)" by (cases p)
  show ?case
  proof (cases "v > m")
    case True
    then have "(max_key_from k m (p # d), max_from m (map snd (p # d)))
                 = (max_key_from k' v d, max_from v (map snd d))"
      by (simp add: p)
    moreover have "(max_key_from k' v d, max_from v (map snd d)) \<in> insert (k', v) (set d)"
      by (rule Cons.IH)
    ultimately show ?thesis
      by (simp only: p list.set) blast
  next
    case False
    then have "(max_key_from k m (p # d), max_from m (map snd (p # d)))
                 = (max_key_from k m d, max_from m (map snd d))"
      by (simp add: p)
    moreover have "(max_key_from k m d, max_from m (map snd d)) \<in> insert (k, m) (set d)"
      by (rule Cons.IH)
    ultimately show ?thesis
      by (simp only: p list.set) blast
  qed
qed

lemma py_max_dict: "d \<noteq> [] \<Longrightarrow> py_max (map snd d) = Inr (dict_max d)"
  by (cases d) (auto simp: py_max_def dict_max_def)

lemma py_max_key_dict: "d \<noteq> [] \<Longrightarrow> py_max_key d = Inr (dict_argmax d k0)"
  by (cases d) (auto simp: py_max_key_def dict_argmax_def)

lemma dict_max_Max: "d \<noteq> [] \<Longrightarrow> dict_max d = Max (snd ` set d)"
  by (cases d) (auto simp: dict_max_def max_from_Max)

lemma dict_argmax_in: "d \<noteq> [] \<Longrightarrow> (dict_argmax d k0, dict_max d) \<in> set d"
proof (cases d)
  case Nil
  assume "d \<noteq> []"
  with Nil show ?thesis by simp
next
  case (Cons p d')
  obtain k v where p: "p = (k, v)" by (cases p)
  have "(max_key_from k v d', max_from v (map snd d')) \<in> insert (k, v) (set d')"
    by (rule max_key_from_in)
  then show ?thesis
    by (simp add: Cons p dict_max_def dict_argmax_def)
qed


section \<open>The loops of Policy A\<close>

lemma seed_loop_valid:
  assumes "model = ''kmeans'' \<or> model = ''gmm''"
  shows "seed_loop lib data model K seeds d g =
           (Inr (fold (\<lambda>seed. AList.update seed (grid_score lib data model K seed)) seeds d), g)"
  by (induction seeds arbitrary: d)
    (simp_all add: get_clusterer_valid [OF assms] fit_predict_grid grid_score_def)

lemma seed_loop_invalid:
  assumes "model \<noteq> ''kmeans''" "model \<noteq> ''gmm''" "seeds \<noteq> []"
  shows "seed_loop lib data model K seeds d g = (Inl NameError, g)"
  using assms by (cases seeds) (simp_all add: get_clusterer_invalid)

lemma row_scores_nonempty: "seeds \<noteq> [] \<Longrightarrow> row_scores lib data model seeds K \<noteq> []"
  by (simp add: row_scores_def fold_update_nonempty)

lemma K_loop_valid:
  assumes valid: "model = ''kmeans'' \<or> model = ''gmm''" and seeds: "seeds \<noteq> []"
  shows "K_loop lib data model seeds Ks (ss, bs, Kv) g =
           (Inr (fold (\<lambda>K. AList.update K (row_best lib data model seeds K)) Ks ss,
                 fold (\<lambda>K. AList.update K (row_seed lib data model seeds K)) Ks bs,
                 if Ks = [] then Kv else Some (last Ks)), g)"
proof (induction Ks arbitrary: ss bs Kv)
  case Nil
  show ?case by simp
next
  case (Cons K Ks)
  have row: "seed_loop lib data model K seeds [] g = (Inr (row_scores lib data model seeds K), g)"
    by (simp add: seed_loop_valid [OF valid] row_scores_def)
  have ne: "row_scores lib data model seeds K \<noteq> []"
    by (rule row_scores_nonempty [OF seeds])
  show ?case
    by (simp add: row py_max_dict [OF ne] py_max_key_dict [OF ne, of 0] Cons.IH
        row_best_def row_seed_def)
qed

lemma K_loop_no_seeds:
  "Ks \<noteq> [] \<Longrightarrow> K_loop lib data model [] Ks st g = (Inl ValueError, g)"
  by (cases Ks; cases st) (simp_all add: py_max_def)

lemma K_loop_invalid:
  assumes "model \<noteq> ''kmeans''" "model \<noteq> ''gmm''" "seeds \<noteq> []" "Ks \<noteq> []"
  shows "K_loop lib data model seeds Ks st g = (Inl NameError, g)"
  using assms(4) by (cases Ks; cases st) (simp_all add: seed_loop_invalid [OF assms(1-3)])

lemma scores_seed_loop_valid:
  assumes "model = ''kmeans'' \<or> model = ''gmm''"
  shows "scores_seed_loop lib data model K seeds (d, c) g =
           (Inr (fold (\<lambda>seed. AList.update seed (grid_score lib data model K seed)) seeds d,
                 if seeds = [] then c else Some (grid_estimator model K (last seeds))), g)"
proof (induction seeds arbitrary: d c)
  case Nil
  show ?case by simp
next
  case (Cons seed seeds)
  have est: "(if model = ''kmeans'' then Inr (KMeans K None None (Some seed))
              else if model = ''gmm'' then Inr (GaussianMixture K None None (Some seed))
              else Inl (Return (ExceptionObject NameError)))
             = Inr (grid_estimator model K seed)"
    using assms by (auto simp: grid_estimator_def)
  show ?case
    by (simp only: scores_seed_loop.simps est) (simp add: fit_predict_grid grid_score_def Cons.IH)
qed

lemma scores_seed_loop_invalid:
  assumes "model \<noteq> ''kmeans''" "model \<noteq> ''gmm''" "seeds \<noteq> []"
  shows "scores_seed_loop lib data model K seeds st g
           = (Inl (Return (ExceptionObject NameError)), g)"
  using assms by (cases seeds; cases st) simp_all

lemma scores_K_loop_valid:
  assumes valid: "model = ''kmeans'' \<or> model = ''gmm''" and seeds: "seeds \<noteq> []"
  shows "scores_K_loop lib data model seeds Ks (ss, bs, c) g =
           (Inr (fold (\<lambda>K. AList.update K (row_best lib data model seeds K)) Ks ss,
                 fold (\<lambda>K. AList.update K (row_seed lib data model seeds K)) Ks bs,
                 if Ks = [] then c else Some (grid_estimator model (last Ks) (last seeds))), g)"
proof (induction Ks arbitrary: ss bs c)
  case Nil
  show ?case by simp
next
  case (Cons K Ks)
  have row: "scores_seed_loop lib data model K seeds ([], c) g =
               (Inr (row_scores lib data model seeds K,
                     Some (grid_estimator model K (last seeds))), g)"
    using seeds by (simp add: scores_seed_loop_valid [OF valid] row_scores_def)
  have ne: "row_scores lib data model seeds K \<noteq> []"
    by (rule row_scores_nonempty [OF seeds])
  show ?case
    by (simp add: row py_max_dict [OF ne] py_max_key_dict [OF ne, of 0] Cons.IH
        row_best_def row_seed_def)
qed

lemma scores_K_loop_no_seeds:
  "Ks \<noteq> [] \<Longrightarrow> scores_K_loop lib data model [] Ks st g = (Inl (Raise ValueError), g)"
  by (cases Ks; cases st) (simp_all add: py_max_def)

lemma scores_K_loop_invalid:
  assumes "model \<noteq> ''kmeans''" "model \<noteq> ''gmm''" "seeds \<noteq> []" "Ks \<noteq> []"
  shows "scores_K_loop lib data model seeds Ks st g
           = (Inl (Return (ExceptionObject NameError)), g)"
  using assms(4)
  by (cases Ks; cases st) (simp_all add: scores_seed_loop_invalid [OF assms(1-3)])

section \<open>Policy A: what the two modules return\<close>

lemma row_scores_set:
  "set (row_scores lib data model seeds K) = (\<lambda>s. (s, grid_score lib data model K s)) ` set seeds"
  by (simp add: row_scores_def fold_update_set)

lemma row_best_attained:
  assumes "seeds \<noteq> []"
  shows "row_seed lib data model seeds K \<in> set seeds"
    and "row_best lib data model seeds K =
           grid_score lib data model K (row_seed lib data model seeds K)"
proof -
  have "(row_seed lib data model seeds K, row_best lib data model seeds K)
          \<in> set (row_scores lib data model seeds K)"
    unfolding row_seed_def row_best_def
    by (rule dict_argmax_in [OF row_scores_nonempty [OF assms]])
  then show "row_seed lib data model seeds K \<in> set seeds"
    and "row_best lib data model seeds K =
           grid_score lib data model K (row_seed lib data model seeds K)"
    by (auto simp: row_scores_set)
qed

lemma row_best_upper:
  assumes "s \<in> set seeds"
  shows "grid_score lib data model K s \<le> row_best lib data model seeds K"
proof -
  have ne: "row_scores lib data model seeds K \<noteq> []"
    using assms by (intro row_scores_nonempty) auto
  have "grid_score lib data model K s \<in> snd ` set (row_scores lib data model seeds K)"
    using assms by (force simp: row_scores_set)
  then have "grid_score lib data model K s \<le> Max (snd ` set (row_scores lib data model seeds K))"
    by (intro Max_ge) simp_all
  then show ?thesis
    by (simp add: row_best_def dict_max_Max [OF ne])
qed

lemma grid_scores_set:
  "set (grid_scores lib data model seeds Ks) = (\<lambda>K. (K, row_best lib data model seeds K)) ` set Ks"
  by (simp add: grid_scores_def fold_update_set)

lemma grid_scores_nonempty: "Ks \<noteq> [] \<Longrightarrow> grid_scores lib data model seeds Ks \<noteq> []"
  by (simp add: grid_scores_def fold_update_nonempty)

lemma grid_best_attained:
  assumes "Ks \<noteq> []"
  shows "grid_best_K lib data model seeds Ks \<in> set Ks"
    and "grid_best lib data model seeds Ks =
           row_best lib data model seeds (grid_best_K lib data model seeds Ks)"
proof -
  have "(grid_best_K lib data model seeds Ks, grid_best lib data model seeds Ks)
          \<in> set (grid_scores lib data model seeds Ks)"
    unfolding grid_best_K_def grid_best_def
    by (rule dict_argmax_in [OF grid_scores_nonempty [OF assms]])
  then show "grid_best_K lib data model seeds Ks \<in> set Ks"
    and "grid_best lib data model seeds Ks =
           row_best lib data model seeds (grid_best_K lib data model seeds Ks)"
    by (auto simp: grid_scores_set)
qed

lemma grid_best_upper:
  assumes "K \<in> set Ks"
  shows "row_best lib data model seeds K \<le> grid_best lib data model seeds Ks"
proof -
  have ne: "grid_scores lib data model seeds Ks \<noteq> []"
    using assms by (intro grid_scores_nonempty) auto
  have "row_best lib data model seeds K \<in> snd ` set (grid_scores lib data model seeds Ks)"
    using assms by (force simp: grid_scores_set)
  then have "row_best lib data model seeds K
               \<le> Max (snd ` set (grid_scores lib data model seeds Ks))"
    by (intro Max_ge) simp_all
  then show ?thesis
    by (simp add: grid_best_def dict_max_Max [OF ne])
qed

lemma grid_cell_upper:
  assumes "K \<in> set Ks" "s \<in> set seeds"
  shows "grid_score lib data model K s \<le> grid_best lib data model seeds Ks"
  using row_best_upper [OF assms(2)] grid_best_upper [OF assms(1)] by (rule order_trans)

lemma last_upto: "k_min \<le> k_max \<Longrightarrow> last [k_min..k_max] = k_max"
  by (simp add: upto_rec2 [of k_min k_max])

lemma best_seed_lookup:
  assumes "Ks \<noteq> []"
  shows "map_of (fold (\<lambda>K. AList.update K (row_seed lib data model seeds K)) Ks [])
           (grid_best_K lib data model seeds Ks)
         = Some (row_seed lib data model seeds (grid_best_K lib data model seeds Ks))"
  using grid_best_attained(1) [OF assms] by (simp add: fold_update_map_of)

lemma get_clusters_by_silhouette_valid:
  assumes valid: "model = ''kmeans'' \<or> model = ''gmm''"
    and seeds: "seeds \<noteq> []" and range: "k_min \<le> k_max"
  shows "get_clusters_by_silhouette lib data model k_min k_max seeds threshold g =
           (if grid_best lib data model seeds [k_min..k_max] < threshold
            then Inr (Triple (replicate (length data) 0) 1 0)
            else Inr (Triple
                   (grid_labels lib data model k_max
                      (row_seed lib data model seeds
                         (grid_best_K lib data model seeds [k_min..k_max])))
                   (grid_best_K lib data model seeds [k_min..k_max])
                   (grid_best lib data model seeds [k_min..k_max])), g)"
proof -
  have Ks: "[k_min..k_max] \<noteq> []"
    using range by simp
  have ne: "grid_scores lib data model seeds [k_min..k_max] \<noteq> []"
    by (rule grid_scores_nonempty [OF Ks])
  show ?thesis
    unfolding get_clusters_by_silhouette_def K_loop_valid [OF valid seeds]
    using Ks
    by (simp add: grid_scores_def [symmetric] py_max_dict [OF ne] py_max_key_dict [OF ne, of 0]
        grid_best_def [symmetric] grid_best_K_def [symmetric] best_seed_lookup [OF Ks]
        last_upto [OF range] get_clusterer_valid [OF valid] fit_predict_grid)
qed

lemma scores_get_clusters_by_silhouette_valid:
  assumes valid: "model = ''kmeans'' \<or> model = ''gmm''"
    and seeds: "seeds \<noteq> []" and range: "k_min \<le> k_max"
  shows "scores_get_clusters_by_silhouette lib data model k_min k_max seeds threshold g =
           (if grid_best lib data model seeds [k_min..k_max] < threshold
            then Inr (Triple (replicate (length data) 0) 1 0)
            else Inr (Triple
                   (grid_labels lib data model (grid_best_K lib data model seeds [k_min..k_max])
                      (row_seed lib data model seeds
                         (grid_best_K lib data model seeds [k_min..k_max])))
                   (grid_best_K lib data model seeds [k_min..k_max])
                   (grid_best lib data model seeds [k_min..k_max])), g)"
proof -
  have Ks: "[k_min..k_max] \<noteq> []"
    using range by simp
  have ne: "grid_scores lib data model seeds [k_min..k_max] \<noteq> []"
    by (rule grid_scores_nonempty [OF Ks])
  have est: "(if model = ''kmeans'' then Some (KMeans K None None (Some seed))
              else if model = ''gmm'' then Some (GaussianMixture K None None (Some seed))
              else c) = Some (grid_estimator model K seed)" for K seed c
    using valid by (auto simp: grid_estimator_def)
  show ?thesis
    unfolding scores_get_clusters_by_silhouette_def scores_K_loop_valid [OF valid seeds]
    using Ks
    by (simp add: grid_scores_def [symmetric] py_max_dict [OF ne] py_max_key_dict [OF ne, of 0]
        grid_best_def [symmetric] grid_best_K_def [symmetric] best_seed_lookup [OF Ks]
        est fit_predict_grid)
qed

section \<open>Policy A: the claims\<close>

lemma get_clusters_by_silhouette_no_grid:
  "k_max < k_min \<Longrightarrow>
     get_clusters_by_silhouette lib data model k_min k_max seeds threshold g = (Inl ValueError, g)"
  by (simp add: get_clusters_by_silhouette_def py_max_def)

lemma get_clusters_by_silhouette_no_seeds:
  "k_min \<le> k_max \<Longrightarrow>
     get_clusters_by_silhouette lib data model k_min k_max [] threshold g = (Inl ValueError, g)"
  by (simp add: get_clusters_by_silhouette_def K_loop_no_seeds)

lemma get_clusters_by_silhouette_invalid:
  assumes "model \<noteq> ''kmeans''" "model \<noteq> ''gmm''" "seeds \<noteq> []" "k_min \<le> k_max"
  shows "get_clusters_by_silhouette lib data model k_min k_max seeds threshold g
           = (Inl NameError, g)"
  using assms(4) by (simp add: get_clusters_by_silhouette_def K_loop_invalid [OF assms(1-3)])

lemma scores_get_clusters_by_silhouette_no_grid:
  "k_max < k_min \<Longrightarrow>
     scores_get_clusters_by_silhouette lib data model k_min k_max seeds threshold g
       = (Inl ValueError, g)"
  by (simp add: scores_get_clusters_by_silhouette_def py_max_def)

lemma scores_get_clusters_by_silhouette_no_seeds:
  "k_min \<le> k_max \<Longrightarrow>
     scores_get_clusters_by_silhouette lib data model k_min k_max [] threshold g
       = (Inl ValueError, g)"
  by (simp add: scores_get_clusters_by_silhouette_def scores_K_loop_no_seeds)

lemma scores_get_clusters_by_silhouette_invalid:
  assumes "model \<noteq> ''kmeans''" "model \<noteq> ''gmm''" "seeds \<noteq> []" "k_min \<le> k_max"
  shows "scores_get_clusters_by_silhouette lib data model k_min k_max seeds threshold g
           = (Inr (ExceptionObject NameError), g)"
  using assms(4)
  by (simp add: scores_get_clusters_by_silhouette_def scores_K_loop_invalid [OF assms(1-3)])

lemma grid_best_below:
  assumes seeds: "seeds \<noteq> []" and Ks: "Ks \<noteq> []"
    and all: "\<forall>K\<in>set Ks. \<forall>seed\<in>set seeds. grid_score lib data model K seed < threshold"
  shows "grid_best lib data model seeds Ks < threshold"
proof -
  let ?K = "grid_best_K lib data model seeds Ks"
  let ?s = "row_seed lib data model seeds ?K"
  have "grid_best lib data model seeds Ks = grid_score lib data model ?K ?s"
    by (simp add: grid_best_attained(2) [OF Ks] row_best_attained(2) [OF seeds])
  moreover have "?K \<in> set Ks" "?s \<in> set seeds"
    by (rule grid_best_attained(1) [OF Ks], rule row_best_attained(1) [OF seeds])
  ultimately show ?thesis
    using all by simp
qed

text \<open>
  C4. If every silhouette score of the grid is below the threshold (for a model name that
  is \<^verbatim>\<open>kmeans\<close> or \<^verbatim>\<open>gmm\<close> and a grid that has cells), \<^verbatim>\<open>get_clusters_by_silhouette\<close>
  returns the all-zero labelling of the length of the data with K = 1 (and score 0), in
  both modules.
\<close>

theorem silhouette_below_threshold_single_cluster:
  assumes "model = ''kmeans'' \<or> model = ''gmm''"
    and "k_min \<le> k_max" and "seeds \<noteq> []"
    and "\<forall>K\<in>{k_min..k_max}. \<forall>seed\<in>set seeds. grid_score lib data model K seed < threshold"
  shows "get_clusters_by_silhouette lib data model k_min k_max seeds threshold g
           = (Inr (Triple (replicate (length data) 0) 1 0), g) \<and>
         scores_get_clusters_by_silhouette lib data model k_min k_max seeds threshold g
           = (Inr (Triple (replicate (length data) 0) 1 0), g)"
proof -
  have "grid_best lib data model seeds [k_min..k_max] < threshold"
    using assms by (intro grid_best_below) simp_all
  then show ?thesis
    by (simp add: get_clusters_by_silhouette_valid [OF assms(1,3,2)]
        scores_get_clusters_by_silhouette_valid [OF assms(1,3,2)])
qed

theorem silhouette_below_threshold_single_cluster_witness:
  "get_clusters_by_silhouette (toy (\<lambda>labels. 0)) [[0, 0], [0, 1], [5, 5], [5, 6], [10, 10], [10, 11]]
       ''kmeans'' 2 10 [0..9] (1 / 10) 0
     = (Inr (Triple [0, 0, 0, 0, 0, 0] 1 0), 0) \<and>
   scores_get_clusters_by_silhouette (toy (\<lambda>labels. 0)) [[0, 0], [0, 1], [5, 5], [5, 6], [10, 10], [10, 11]]
       ''kmeans'' 2 10 [0..9] (1 / 10) 0
     = (Inr (Triple [0, 0, 0, 0, 0, 0] 1 0), 0)"
proof -
  have cells: "\<forall>K\<in>{2..10}. \<forall>seed\<in>set [0..9].
      grid_score (toy (\<lambda>labels. 0)) [[0, 0], [0, 1], [5, 5], [5, 6], [10, 10], [10, 11]] ''kmeans'' K seed
        < 1 / 10"
    by (simp add: grid_score_def toy_def)
  have seeds: "[0..9] \<noteq> ([] :: int list)"
    by simp
  show ?thesis
    using cells
      silhouette_below_threshold_single_cluster [of "''kmeans''" 2 10 "[0..9]"
        "toy (\<lambda>labels. 0)" "[[0, 0], [0, 1], [5, 5], [5, 6], [10, 10], [10, 11]]" "1 / 10" 0, OF _ _ seeds cells]
    by (simp add: numeral_eq_Suc)
qed


lemma grid_best_reached:
  assumes seeds: "seeds \<noteq> []" and Ks: "Ks \<noteq> []"
  shows "\<exists>best_K seed. best_K = grid_best_K lib data model seeds Ks \<and>
           seed = row_seed lib data model seeds best_K \<and>
           best_K \<in> set Ks \<and> seed \<in> set seeds \<and>
           grid_best lib data model seeds Ks = grid_score lib data model best_K seed \<and>
           (\<forall>K\<in>set Ks. \<forall>s\<in>set seeds.
              grid_score lib data model K s \<le> grid_score lib data model best_K seed)"
proof -
  let ?K = "grid_best_K lib data model seeds Ks"
  let ?s = "row_seed lib data model seeds ?K"
  have best: "grid_best lib data model seeds Ks = grid_score lib data model ?K ?s"
    by (simp add: grid_best_attained(2) [OF Ks] row_best_attained(2) [OF seeds])
  have "?K \<in> set Ks" "?s \<in> set seeds"
    by (rule grid_best_attained(1) [OF Ks], rule row_best_attained(1) [OF seeds])
  moreover have "\<forall>K\<in>set Ks. \<forall>s\<in>set seeds.
      grid_score lib data model K s \<le> grid_score lib data model ?K ?s"
    using grid_cell_upper [of _ Ks _ seeds lib data model] by (simp add: best)
  ultimately show ?thesis
    using best by blast
qed

text \<open>
  What \<^verbatim>\<open>semantic_change_scores.py\<close> does when some cell of the grid reaches the
  threshold: it refits at the winning cell \<open>(best_K, seed)\<close>, one whose score no cell
  exceeds, and returns that fit's labels with \<open>best_K\<close> and the score.
\<close>

lemma scores_refits_with_winning_K:
  assumes valid: "model = ''kmeans'' \<or> model = ''gmm''"
    and range: "k_min \<le> k_max" and seeds: "seeds \<noteq> []"
    and reach: "K0 \<in> {k_min..k_max}" "s0 \<in> set seeds"
      "threshold \<le> grid_score lib data model K0 s0"
  shows "\<exists>best_K seed. best_K \<in> {k_min..k_max} \<and> seed \<in> set seeds \<and>
           (\<forall>K\<in>{k_min..k_max}. \<forall>s\<in>set seeds.
              grid_score lib data model K s \<le> grid_score lib data model best_K seed) \<and>
           scores_get_clusters_by_silhouette lib data model k_min k_max seeds threshold g
             = (Inr (Triple (grid_labels lib data model best_K seed) best_K
                       (grid_score lib data model best_K seed)), g)"
proof -
  have Ks: "[k_min..k_max] \<noteq> []"
    using range by simp
  obtain best_K seed where w:
    "best_K = grid_best_K lib data model seeds [k_min..k_max]"
    "seed = row_seed lib data model seeds best_K"
    "best_K \<in> set [k_min..k_max]" "seed \<in> set seeds"
    "grid_best lib data model seeds [k_min..k_max] = grid_score lib data model best_K seed"
    "\<forall>K\<in>set [k_min..k_max]. \<forall>s\<in>set seeds.
       grid_score lib data model K s \<le> grid_score lib data model best_K seed"
    using grid_best_reached [OF seeds Ks, of lib data model] by blast
  have "grid_score lib data model K0 s0 \<le> grid_score lib data model best_K seed"
    using w(6) reach(1,2) by simp
  then have "\<not> grid_best lib data model seeds [k_min..k_max] < threshold"
    using reach(3) w(5) by simp
  then have "scores_get_clusters_by_silhouette lib data model k_min k_max seeds threshold g
      = (Inr (Triple (grid_labels lib data model best_K seed) best_K
                (grid_score lib data model best_K seed)), g)"
    by (simp add: scores_get_clusters_by_silhouette_valid [OF valid seeds range]
        w(1) [symmetric] w(2) [symmetric] w(5))
  with w(3,4,6) show ?thesis
    by (simp only: set_upto) blast
qed

text \<open>
  What \<^verbatim>\<open>semantic_change.py\<close> does in the same situation: the labels are those of the
  fit with \<open>k_max\<close> clusters (the last value of the loop variable) at the winning seed,
  returned with \<open>best_K\<close>.
\<close>

lemma refits_with_last_K:
  assumes valid: "model = ''kmeans'' \<or> model = ''gmm''"
    and range: "k_min \<le> k_max" and seeds: "seeds \<noteq> []"
    and reach: "K0 \<in> {k_min..k_max}" "s0 \<in> set seeds"
      "threshold \<le> grid_score lib data model K0 s0"
  shows "\<exists>best_K seed. best_K \<in> {k_min..k_max} \<and> seed \<in> set seeds \<and>
           (\<forall>K\<in>{k_min..k_max}. \<forall>s\<in>set seeds.
              grid_score lib data model K s \<le> grid_score lib data model best_K seed) \<and>
           get_clusters_by_silhouette lib data model k_min k_max seeds threshold g
             = (Inr (Triple (grid_labels lib data model k_max seed) best_K
                       (grid_score lib data model best_K seed)), g)"
proof -
  have Ks: "[k_min..k_max] \<noteq> []"
    using range by simp
  obtain best_K seed where w:
    "best_K = grid_best_K lib data model seeds [k_min..k_max]"
    "seed = row_seed lib data model seeds best_K"
    "best_K \<in> set [k_min..k_max]" "seed \<in> set seeds"
    "grid_best lib data model seeds [k_min..k_max] = grid_score lib data model best_K seed"
    "\<forall>K\<in>set [k_min..k_max]. \<forall>s\<in>set seeds.
       grid_score lib data model K s \<le> grid_score lib data model best_K seed"
    using grid_best_reached [OF seeds Ks, of lib data model] by blast
  have "grid_score lib data model K0 s0 \<le> grid_score lib data model best_K seed"
    using w(6) reach(1,2) by simp
  then have "\<not> grid_best lib data model seeds [k_min..k_max] < threshold"
    using reach(3) w(5) by simp
  then have "get_clusters_by_silhouette lib data model k_min k_max seeds threshold g
      = (Inr (Triple (grid_labels lib data model k_max seed) best_K
                (grid_score lib data model best_K seed)), g)"
    by (simp add: get_clusters_by_silhouette_valid [OF valid seeds range]
        w(1) [symmetric] w(2) [symmetric] w(5))
  with w(3,4,6) show ?thesis
    by (simp only: set_upto) blast
qed

text \<open>
  C1. On six points with the grid K = 2, 3 and the seed 0, the cell K = 2 wins (score 1/2
  against 1/3) and its fit labels the points 0, 0, 1, 1, 0, 0.
  \<^verbatim>\<open>get_clusters_by_silhouette\<close> of \<^verbatim>\<open>semantic_change.py\<close> returns K = 2 with the labels
  0, 0, 1, 1, 2, 2 of the fit with three clusters; the function of
  \<^verbatim>\<open>semantic_change_scores.py\<close> returns the labels of the winner.
\<close>

theorem silhouette_refit_uses_loop_variable:
  "grid_score (toy inverse_label_count) [[0, 0], [0, 1], [5, 5], [5, 6], [10, 10], [10, 11]] ''kmeans'' 2 0 = 1 / 2 \<and>
   grid_score (toy inverse_label_count) [[0, 0], [0, 1], [5, 5], [5, 6], [10, 10], [10, 11]] ''kmeans'' 3 0 = 1 / 3 \<and>
   grid_labels (toy inverse_label_count) [[0, 0], [0, 1], [5, 5], [5, 6], [10, 10], [10, 11]] ''kmeans'' 2 0
     = [0, 0, 1, 1, 0, 0] \<and>
   get_clusters_by_silhouette (toy inverse_label_count) [[0, 0], [0, 1], [5, 5], [5, 6], [10, 10], [10, 11]]
       ''kmeans'' 2 3 [0] (1 / 10) 0
     = (Inr (Triple [0, 0, 1, 1, 2, 2] 2 (1 / 2)), 0) \<and>
   scores_get_clusters_by_silhouette (toy inverse_label_count) [[0, 0], [0, 1], [5, 5], [5, 6], [10, 10], [10, 11]]
       ''kmeans'' 2 3 [0] (1 / 10) 0
     = (Inr (Triple [0, 0, 1, 1, 0, 0] 2 (1 / 2)), 0)"
  by code_simp

text \<open>
  C2. The two modules differ. On a model name that is neither \<^verbatim>\<open>kmeans\<close> nor \<^verbatim>\<open>gmm\<close>
  (with the default grid) \<^verbatim>\<open>semantic_change.py\<close> raises \<^verbatim>\<open>NameError\<close> and
  \<^verbatim>\<open>semantic_change_scores.py\<close> returns the \<^verbatim>\<open>NameError\<close> object; and on the six points
  of C1 they return different labels.
\<close>

theorem silhouette_modules_differ:
  "get_clusters_by_silhouette lib data ''dbscan'' 2 10 [0..9] (1 / 10) g = (Inl NameError, g) \<and>
   scores_get_clusters_by_silhouette lib data ''dbscan'' 2 10 [0..9] (1 / 10) g
     = (Inr (ExceptionObject NameError), g) \<and>
   get_clusters_by_silhouette (toy inverse_label_count) [[0, 0], [0, 1], [5, 5], [5, 6], [10, 10], [10, 11]]
       ''kmeans'' 2 3 [0] (1 / 10) 0
     \<noteq> scores_get_clusters_by_silhouette (toy inverse_label_count)
         [[0, 0], [0, 1], [5, 5], [5, 6], [10, 10], [10, 11]] ''kmeans'' 2 3 [0] (1 / 10) 0"
proof (intro conjI)
  have seeds: "[0..9] \<noteq> ([] :: int list)"
    by simp
  show "get_clusters_by_silhouette lib data ''dbscan'' 2 10 [0..9] (1 / 10) g
          = (Inl NameError, g)"
    by (rule get_clusters_by_silhouette_invalid [OF _ _ seeds]) simp_all
  show "scores_get_clusters_by_silhouette lib data ''dbscan'' 2 10 [0..9] (1 / 10) g
          = (Inr (ExceptionObject NameError), g)"
    by (rule scores_get_clusters_by_silhouette_invalid [OF _ _ seeds]) simp_all
  show "get_clusters_by_silhouette (toy inverse_label_count) [[0, 0], [0, 1], [5, 5], [5, 6], [10, 10], [10, 11]]
       ''kmeans'' 2 3 [0] (1 / 10) 0
     \<noteq> scores_get_clusters_by_silhouette (toy inverse_label_count)
         [[0, 0], [0, 1], [5, 5], [5, 6], [10, 10], [10, 11]] ''kmeans'' 2 3 [0] (1 / 10) 0"
    by code_simp
qed

section \<open>Seeded policies and the global generator\<close>

lemma get_clusters_by_silhouette_seeded:
  "\<exists>r. \<forall>g. get_clusters_by_silhouette lib data model k_min k_max seeds threshold g = (r, g)"
proof -
  consider "k_max < k_min" | "k_min \<le> k_max" "seeds = []"
    | "k_min \<le> k_max" "seeds \<noteq> []" "model \<noteq> ''kmeans''" "model \<noteq> ''gmm''"
    | "k_min \<le> k_max" "seeds \<noteq> []" "model = ''kmeans'' \<or> model = ''gmm''"
    by fastforce
  then show ?thesis
  proof cases
    case 1
    then show ?thesis
      by (simp add: get_clusters_by_silhouette_no_grid)
  next
    case 2
    then show ?thesis
      by (simp add: get_clusters_by_silhouette_no_seeds)
  next
    case 3
    then show ?thesis
      by (simp add: get_clusters_by_silhouette_invalid)
  next
    case 4
    show ?thesis
      unfolding get_clusters_by_silhouette_valid [OF 4(3,2,1)] by blast
  qed
qed

lemma scores_get_clusters_by_silhouette_seeded:
  "\<exists>r. \<forall>g. scores_get_clusters_by_silhouette lib data model k_min k_max seeds threshold g
           = (r, g)"
proof -
  consider "k_max < k_min" | "k_min \<le> k_max" "seeds = []"
    | "k_min \<le> k_max" "seeds \<noteq> []" "model \<noteq> ''kmeans''" "model \<noteq> ''gmm''"
    | "k_min \<le> k_max" "seeds \<noteq> []" "model = ''kmeans'' \<or> model = ''gmm''"
    by fastforce
  then show ?thesis
  proof cases
    case 1
    then show ?thesis
      by (simp add: scores_get_clusters_by_silhouette_no_grid)
  next
    case 2
    then show ?thesis
      by (simp add: scores_get_clusters_by_silhouette_no_seeds)
  next
    case 3
    then show ?thesis
      by (simp add: scores_get_clusters_by_silhouette_invalid)
  next
    case 4
    show ?thesis
      unfolding scores_get_clusters_by_silhouette_valid [OF 4(3,2,1)] by blast
  qed
qed

lemma SSD_loop_seeded:
  "\<exists>S. \<forall>g. SSD_loop lib data iters seed alg ks acc g = (S, g)"
  by (induction ks arbitrary: acc) (simp_all add: fit_seeded)

lemma choose_kmeans_k_with_elbow_seeded:
  "\<exists>K. \<forall>g. choose_kmeans_k_with_elbow lib data k_min k_max iters seed alg g = (K, g)"
proof -
  obtain S where "\<forall>g. SSD_loop lib data iters seed alg [k_min..k_max] [] g = (S, g)"
    using SSD_loop_seeded by blast
  then show ?thesis
    by (simp add: choose_kmeans_k_with_elbow_def)
qed

lemma cv_loop_seeded:
  "\<exists>st'. \<forall>g. cv_loop lib data seed k cvs st g = (st', g)"
proof (induction cvs arbitrary: st)
  case Nil
  show ?case by (intro exI [of _ st]) simp
next
  case (Cons cv cvs)
  obtain bic_scores lowest_bic best_K best_cv where st: "st = (bic_scores, lowest_bic, best_K, best_cv)"
    by (cases st) auto
  let ?m = "seeded_fit lib (GaussianMixture k (Some cv) (Some (1 / 10000)) (Some seed)) seed data"
  let ?scores = "bic_scores @ [fit_bic ?m]"
  let ?next = "if (case lowest_bic of None \<Rightarrow> True | Some lowest \<Rightarrow> last ?scores < lowest)
               then (?scores, Some (last ?scores), Some k, Some cv)
               else (?scores, lowest_bic, best_K, best_cv)"
  have step: "cv_loop lib data seed k (cv # cvs) st g = cv_loop lib data seed k cvs ?next g" for g
    by (simp add: st fit_seeded Let_def del: last_snoc)
  obtain st' where "\<forall>g. cv_loop lib data seed k cvs ?next g = (st', g)"
    using Cons.IH by blast
  then show ?case
    by (intro exI [of _ st']) (simp only: step simp_thms)
qed

lemma bic_loop_seeded:
  "\<exists>st'. \<forall>g. bic_loop lib data seed cvs ks st g = (st', g)"
proof (induction ks arbitrary: st)
  case Nil
  show ?case by (intro exI [of _ st]) simp
next
  case (Cons k ks)
  obtain st1 where 1: "\<forall>g. cv_loop lib data seed k cvs st g = (st1, g)"
    using cv_loop_seeded by blast
  show ?case
    using Cons.IH [of st1] by (simp add: 1)
qed

lemma choose_gmm_params_with_bic_seeded:
  "\<exists>r. \<forall>g. choose_gmm_params_with_bic lib data k_min k_max seed verbose g = (r, g)"
proof -
  obtain st where
    "\<forall>g. bic_loop lib data seed [''spherical'', ''tied'', ''diag'', ''full''] [k_min..k_max]
            ([], None, None, None) g = (st, g)"
    using bic_loop_seeded by blast
  moreover obtain bic_scores lowest_bic best_K best_cv
    where "st = (bic_scores, lowest_bic, best_K, best_cv)"
    by (cases st) auto
  ultimately show ?thesis
    by (cases best_K; cases best_cv) (simp_all add: choose_gmm_params_with_bic_def)
qed

lemma refit_silhouette_seeded:
  "refit_silhouette lib data k_min k_max seed g = refit_silhouette lib data k_min k_max seed g'"
proof -
  obtain K where "\<forall>g. choose_kmeans_k_with_elbow lib data k_min k_max 200 seed ''auto'' g = (K, g)"
    using choose_kmeans_k_with_elbow_seeded by blast
  then show ?thesis
    by (simp add: refit_silhouette_def fit_predict_seeded)
qed

lemma score_seed_loop_step:
  "\<exists>K labels. \<forall>g b bK bl.
     score_seed_loop lib data k_min k_max (seed # seeds) (b, bK, bl) g =
       (if refit_silhouette lib data k_min k_max seed g > b
        then score_seed_loop lib data k_min k_max seeds
               (refit_silhouette lib data k_min k_max seed g, Some K, Some labels) g
        else score_seed_loop lib data k_min k_max seeds (b, bK, bl) g)"
proof -
  obtain K where "\<forall>g. choose_kmeans_k_with_elbow lib data k_min k_max 200 seed ''auto'' g = (K, g)"
    using choose_kmeans_k_with_elbow_seeded by blast
  then show ?thesis
    by (intro exI [of _ K]
        exI [of _ "fit_labels (seeded_fit lib (KMeans K None None (Some seed)) seed data)"])
      (simp add: refit_silhouette_def fit_predict_seeded Let_def)
qed

lemma score_seed_loop_seeded:
  "\<exists>st'. \<forall>g. score_seed_loop lib data k_min k_max seeds st g = (st', g)"
proof (induction seeds arbitrary: st)
  case Nil
  show ?case by (intro exI [of _ st]) simp
next
  case (Cons seed seeds)
  obtain b bK bl where st: "st = (b, bK, bl)"
    by (cases st) auto
  obtain K labels where step: "\<And>g b bK bl.
     score_seed_loop lib data k_min k_max (seed # seeds) (b, bK, bl) g =
       (if refit_silhouette lib data k_min k_max seed g > b
        then score_seed_loop lib data k_min k_max seeds
               (refit_silhouette lib data k_min k_max seed g, Some K, Some labels) g
        else score_seed_loop lib data k_min k_max seeds (b, bK, bl) g)"
    using score_seed_loop_step [of lib data k_min k_max seed seeds] by blast
  obtain s where s: "\<And>g. refit_silhouette lib data k_min k_max seed g = s"
    using refit_silhouette_seeded [of lib data k_min k_max seed] by blast
  show ?case
  proof (cases "s > b")
    case True
    obtain st' where
      "\<forall>g. score_seed_loop lib data k_min k_max seeds (s, Some K, Some labels) g = (st', g)"
      using Cons.IH by blast
    with True show ?thesis
      by (intro exI [of _ st']) (simp only: st step s if_True simp_thms)
  next
    case False
    obtain st' where
      "\<forall>g. score_seed_loop lib data k_min k_max seeds (b, bK, bl) g = (st', g)"
      using Cons.IH by blast
    with False show ?thesis
      by (intro exI [of _ st']) (simp only: st step s if_False simp_thms)
  qed
qed

lemma get_clusters_by_score_seeded:
  "\<exists>r. \<forall>g. get_clusters_by_score lib data model k_min k_max seeds g = (r, g)"
proof -
  consider "model = ''kmeans''" | "model \<noteq> ''kmeans''" "model = ''gmm''"
    | "model \<noteq> ''kmeans''" "model \<noteq> ''gmm''"
    by blast
  then show ?thesis
  proof cases
    case 1
    obtain st where "\<forall>g. score_seed_loop lib data k_min k_max seeds (0, None, None) g = (st, g)"
      using score_seed_loop_seeded by blast
    moreover obtain b bK bl where "st = (b, bK, bl)"
      by (cases st) auto
    ultimately show ?thesis
      by (cases bK; cases bl) (simp_all add: get_clusters_by_score_def 1)
  next
    case 2
    show ?thesis
    proof (cases seeds)
      case Nil
      then show ?thesis
        by (simp add: get_clusters_by_score_def 2)
    next
      case (Cons seed0 rest)
      obtain r where r: "\<forall>g. choose_gmm_params_with_bic lib data k_min k_max seed0 False g = (r, g)"
        using choose_gmm_params_with_bic_seeded by blast
      show ?thesis
      proof (cases r)
        case (Inl e)
        then show ?thesis
          by (simp add: get_clusters_by_score_def 2 Cons r)
      next
        case (Inr t)
        obtain K cv scores where "t = (K, cv, scores)"
          by (cases t) auto
        then show ?thesis
          by (simp add: get_clusters_by_score_def 2 Cons r Inr fit_predict_seeded)
      qed
    qed
  next
    case 3
    then show ?thesis
      by (simp add: get_clusters_by_score_def)
  qed
qed


text \<open>
  C3, as the code has it. \<^verbatim>\<open>get_clusters_by_silhouette\<close> (both modules) and
  \<^verbatim>\<open>get_clusters_by_score\<close> give every estimator they fit a seed of the seed list:
  their result is the same from every state of the global generator, and they leave that
  state as it was.
\<close>

theorem seeded_policies_deterministic:
  "fst (get_clusters_by_silhouette lib data model k_min k_max seeds threshold g)
     = fst (get_clusters_by_silhouette lib data model k_min k_max seeds threshold g') \<and>
   snd (get_clusters_by_silhouette lib data model k_min k_max seeds threshold g) = g \<and>
   fst (scores_get_clusters_by_silhouette lib data model k_min k_max seeds threshold g)
     = fst (scores_get_clusters_by_silhouette lib data model k_min k_max seeds threshold g') \<and>
   snd (scores_get_clusters_by_silhouette lib data model k_min k_max seeds threshold g) = g \<and>
   fst (get_clusters_by_score lib data model k_min k_max seeds g)
     = fst (get_clusters_by_score lib data model k_min k_max seeds g') \<and>
   snd (get_clusters_by_score lib data model k_min k_max seeds g) = g"
proof -
  obtain a where "\<forall>g. get_clusters_by_silhouette lib data model k_min k_max seeds threshold g
                       = (a, g)"
    using get_clusters_by_silhouette_seeded by blast
  moreover obtain b where
    "\<forall>g. scores_get_clusters_by_silhouette lib data model k_min k_max seeds threshold g = (b, g)"
    using scores_get_clusters_by_silhouette_seeded by blast
  moreover obtain c where "\<forall>g. get_clusters_by_score lib data model k_min k_max seeds g = (c, g)"
    using get_clusters_by_score_seeded by blast
  ultimately show ?thesis
    by simp
qed

text \<open>
  C3 as stated fails for \<^verbatim>\<open>get_kmeans_cluster_labels\<close>, which builds K-means without a
  \<^verbatim>\<open>random_state\<close>: the same data and the same candidate list give different labels
  from two states of the global generator.
\<close>

theorem kmeans_cluster_labels_depend_on_generator:
  "fst (get_kmeans_cluster_labels (toy inverse_label_count)
          [[0, 0], [0, 1], [5, 5], [5, 6], [10, 10], [10, 11]] [2, 3, 4, 5] 0)
     \<noteq> fst (get_kmeans_cluster_labels (toy inverse_label_count)
              [[0, 0], [0, 1], [5, 5], [5, 6], [10, 10], [10, 11]] [2, 3, 4, 5] 1)"
  by code_simp

section \<open>Policy B: when a result is defined\<close>

lemma score_seed_loop_keeps_bound:
  "\<exists>b' K' labels'. \<forall>g.
     score_seed_loop lib data k_min k_max seeds (b, Some K, Some labels) g
       = ((b', Some K', Some labels'), g)"
proof (induction seeds arbitrary: b K labels)
  case Nil
  show ?case by simp
next
  case (Cons seed seeds)
  obtain K1 labels1 where step: "\<And>g b bK bl.
     score_seed_loop lib data k_min k_max (seed # seeds) (b, bK, bl) g =
       (if refit_silhouette lib data k_min k_max seed g > b
        then score_seed_loop lib data k_min k_max seeds
               (refit_silhouette lib data k_min k_max seed g, Some K1, Some labels1) g
        else score_seed_loop lib data k_min k_max seeds (b, bK, bl) g)"
    using score_seed_loop_step [of lib data k_min k_max seed seeds] by blast
  obtain s where s: "\<And>g. refit_silhouette lib data k_min k_max seed g = s"
    using refit_silhouette_seeded [of lib data k_min k_max seed] by blast
  show ?case
  proof (cases "s > b")
    case True
    with Cons.IH [of s K1 labels1] show ?thesis
      by (simp only: step s if_True)
  next
    case False
    with Cons.IH [of b K labels] show ?thesis
      by (simp only: step s if_False)
  qed
qed

lemma score_seed_loop_unchanged:
  assumes "\<forall>seed\<in>set seeds. refit_silhouette lib data k_min k_max seed g \<le> b"
  shows "score_seed_loop lib data k_min k_max seeds (b, bK, bl) g = ((b, bK, bl), g)"
  using assms
proof (induction seeds)
  case Nil
  show ?case by simp
next
  case (Cons seed seeds)
  obtain K1 labels1 where step: "\<And>g b bK bl.
     score_seed_loop lib data k_min k_max (seed # seeds) (b, bK, bl) g =
       (if refit_silhouette lib data k_min k_max seed g > b
        then score_seed_loop lib data k_min k_max seeds
               (refit_silhouette lib data k_min k_max seed g, Some K1, Some labels1) g
        else score_seed_loop lib data k_min k_max seeds (b, bK, bl) g)"
    using score_seed_loop_step [of lib data k_min k_max seed seeds] by blast
  have "\<not> refit_silhouette lib data k_min k_max seed g > b"
    using Cons.prems by simp
  moreover have "score_seed_loop lib data k_min k_max seeds (b, bK, bl) g = ((b, bK, bl), g)"
    using Cons.prems by (intro Cons.IH) simp
  ultimately show ?case
    by (simp only: step if_False)
qed

lemma score_seed_loop_binds:
  assumes "\<exists>seed\<in>set seeds. refit_silhouette lib data k_min k_max seed g > b"
  shows "\<exists>b' K' labels'.
           score_seed_loop lib data k_min k_max seeds (b, bK, bl) g
             = ((b', Some K', Some labels'), g)"
  using assms
proof (induction seeds)
  case Nil
  then show ?case by simp
next
  case (Cons seed seeds)
  obtain K1 labels1 where step: "\<And>g b bK bl.
     score_seed_loop lib data k_min k_max (seed # seeds) (b, bK, bl) g =
       (if refit_silhouette lib data k_min k_max seed g > b
        then score_seed_loop lib data k_min k_max seeds
               (refit_silhouette lib data k_min k_max seed g, Some K1, Some labels1) g
        else score_seed_loop lib data k_min k_max seeds (b, bK, bl) g)"
    using score_seed_loop_step [of lib data k_min k_max seed seeds] by blast
  show ?case
  proof (cases "refit_silhouette lib data k_min k_max seed g > b")
    case True
    with score_seed_loop_keeps_bound
           [of lib data k_min k_max seeds "refit_silhouette lib data k_min k_max seed g" K1 labels1]
    show ?thesis
      by (simp only: step if_True) blast
  next
    case False
    with Cons.prems have "\<exists>seed\<in>set seeds. refit_silhouette lib data k_min k_max seed g > b"
      by auto
    with False Cons.IH show ?thesis
      by (simp only: step if_False)
  qed
qed

text \<open>
  C10. With \<^verbatim>\<open>model="kmeans"\<close>, \<^verbatim>\<open>get_clusters_by_score\<close> returns a result exactly
  when some seed's refit has a silhouette above 0; when every seed's silhouette is at most
  0, and when the model name is neither \<^verbatim>\<open>kmeans\<close> nor \<^verbatim>\<open>gmm\<close>, it fails on an unbound
  local variable.
\<close>

theorem get_clusters_by_score_defined:
  "((\<exists>r. fst (get_clusters_by_score lib data ''kmeans'' k_min k_max seeds g) = Inr r)
      \<longleftrightarrow> (\<exists>seed\<in>set seeds. 0 < refit_silhouette lib data k_min k_max seed g)) \<and>
   ((\<forall>seed\<in>set seeds. refit_silhouette lib data k_min k_max seed g \<le> 0) \<longrightarrow>
      fst (get_clusters_by_score lib data ''kmeans'' k_min k_max seeds g) = Inl UnboundLocalError) \<and>
   (model \<noteq> ''kmeans'' \<and> model \<noteq> ''gmm'' \<longrightarrow>
      fst (get_clusters_by_score lib data model k_min k_max seeds g) = Inl UnboundLocalError)"
proof (intro conjI impI)
  have bound: "\<exists>r. fst (get_clusters_by_score lib data ''kmeans'' k_min k_max seeds g) = Inr r"
    if positive: "\<exists>seed\<in>set seeds. 0 < refit_silhouette lib data k_min k_max seed g"
  proof -
    obtain b' K' labels' where
      "score_seed_loop lib data k_min k_max seeds (0, None, None) g
         = ((b', Some K', Some labels'), g)"
      using score_seed_loop_binds [OF positive] by blast
    then show ?thesis
      by (simp add: get_clusters_by_score_def)
  qed
  have unbound: "fst (get_clusters_by_score lib data ''kmeans'' k_min k_max seeds g)
                   = Inl UnboundLocalError"
    if "\<forall>seed\<in>set seeds. refit_silhouette lib data k_min k_max seed g \<le> 0"
    by (simp add: get_clusters_by_score_def score_seed_loop_unchanged [OF that])
  show "(\<exists>r. fst (get_clusters_by_score lib data ''kmeans'' k_min k_max seeds g) = Inr r)
      \<longleftrightarrow> (\<exists>seed\<in>set seeds. 0 < refit_silhouette lib data k_min k_max seed g)"
  proof
    assume r: "\<exists>r. fst (get_clusters_by_score lib data ''kmeans'' k_min k_max seeds g) = Inr r"
    show "\<exists>seed\<in>set seeds. 0 < refit_silhouette lib data k_min k_max seed g"
    proof (rule ccontr)
      assume "\<not> (\<exists>seed\<in>set seeds. 0 < refit_silhouette lib data k_min k_max seed g)"
      then have "\<forall>seed\<in>set seeds. refit_silhouette lib data k_min k_max seed g \<le> 0"
        by (simp add: not_less)
      from unbound [OF this] r show False
        by simp
    qed
  next
    assume "\<exists>seed\<in>set seeds. 0 < refit_silhouette lib data k_min k_max seed g"
    then show "\<exists>r. fst (get_clusters_by_score lib data ''kmeans'' k_min k_max seeds g) = Inr r"
      by (rule bound)
  qed
  show "fst (get_clusters_by_score lib data ''kmeans'' k_min k_max seeds g) = Inl UnboundLocalError"
    if "\<forall>seed\<in>set seeds. refit_silhouette lib data k_min k_max seed g \<le> 0"
    using that by (rule unbound)
  show "fst (get_clusters_by_score lib data model k_min k_max seeds g) = Inl UnboundLocalError"
    if "model \<noteq> ''kmeans'' \<and> model \<noteq> ''gmm''"
    using that by (simp add: get_clusters_by_score_def)
qed


theorem get_clusters_by_score_defined_witness:
  "(\<exists>r. fst (get_clusters_by_score (toy inverse_label_count)
                [[0, 0], [0, 1], [5, 5], [5, 6], [10, 10], [10, 11]] ''kmeans'' 2 3 [101, 102] 5) = Inr r) \<and>
   fst (get_clusters_by_score (toy (\<lambda>labels. 0))
          [[0, 0], [0, 1], [5, 5], [5, 6], [10, 10], [10, 11]] ''kmeans'' 2 3 [101, 102] 5)
     = Inl UnboundLocalError \<and>
   fst (get_clusters_by_score (toy inverse_label_count)
          [[0, 0], [0, 1], [5, 5], [5, 6], [10, 10], [10, 11]] ''dbscan'' 2 3 [101, 102] 5)
     = Inl UnboundLocalError"
proof -
  have positive: "\<exists>seed\<in>set [101, 102].
      0 < refit_silhouette (toy inverse_label_count) [[0, 0], [0, 1], [5, 5], [5, 6], [10, 10], [10, 11]] 2 3 seed 5"
  proof
    show "0 < refit_silhouette (toy inverse_label_count)
                [[0, 0], [0, 1], [5, 5], [5, 6], [10, 10], [10, 11]] 2 3 101 5"
      by code_simp
  qed simp
  have none: "\<forall>seed\<in>set [101, 102].
      refit_silhouette (toy (\<lambda>labels. 0)) [[0, 0], [0, 1], [5, 5], [5, 6], [10, 10], [10, 11]] 2 3 seed 5 \<le> 0"
    by (simp add: refit_silhouette_def toy_def split: prod.split)
  have name: "''dbscan'' \<noteq> ''kmeans'' \<and> ''dbscan'' \<noteq> ''gmm''"
    by simp
  show ?thesis
    using positive none name
      get_clusters_by_score_defined [where lib = "toy inverse_label_count"
        and data = "[[0, 0], [0, 1], [5, 5], [5, 6], [10, 10], [10, 11]]" and k_min = 2 and k_max = 3
        and seeds = "[101, 102]" and g = 5 and model = "''dbscan''"]
      get_clusters_by_score_defined [where lib = "toy (\<lambda>labels. 0)"
        and data = "[[0, 0], [0, 1], [5, 5], [5, 6], [10, 10], [10, 11]]" and k_min = 2 and k_max = 3
        and seeds = "[101, 102]" and g = 5 and model = "''dbscan''"]
    by blast
qed

section \<open>Scoring orchestrator: which words are scored\<close>

lemma APD_scores_loop_columns:
  "word (APD_scores_loop lib c1 c2 pca_dim min_tweets targets sc)
     = word sc @ filter (\<lambda>t. \<not> omitted c1 c2 min_tweets t) targets \<and>
   length (combined_APD (APD_scores_loop lib c1 c2 pca_dim min_tweets targets sc))
     = length (combined_APD sc) + length (filter (\<lambda>t. \<not> omitted c1 c2 min_tweets t) targets)"
proof (induction targets arbitrary: sc)
  case Nil
  show ?case by simp
next
  case (Cons target targets)
  show ?case
  proof (cases "omitted c1 c2 min_tweets target")
    case True
    then have "APD_scores_loop lib c1 c2 pca_dim min_tweets (target # targets) sc
                 = APD_scores_loop lib c1 c2 pca_dim min_tweets targets sc"
      by (auto simp: omitted_def split: option.splits)
    with True Cons.IH [of sc] show ?thesis
      by simp
  next
    case False
    then obtain X1 X2 where X: "c1 target = Some X1" "c2 target = Some X2"
      "\<not> (int (length X1) \<le> min_tweets \<or> int (length X2) \<le> min_tweets)"
      by (auto simp: omitted_def split: option.splits)
    let ?sc = "sc\<lparr>word := word sc @ [target],
                  combined_APD := combined_APD sc @
                    [compute_average_pairwise_difference
                       (take (length X1) (apply_PCA lib (X1 @ X2) pca_dim))
                       (drop (length X1) (apply_PCA lib (X1 @ X2) pca_dim)) ''combined2'']\<rparr>"
    have "APD_scores_loop lib c1 c2 pca_dim min_tweets (target # targets) sc
            = APD_scores_loop lib c1 c2 pca_dim min_tweets targets ?sc"
      using X by (simp add: Let_def)
    with False Cons.IH [of ?sc] show ?thesis
      by simp
  qed
qed

text \<open>
  C8. The \<^verbatim>\<open>"word"\<close> column of \<^verbatim>\<open>get_APD_scores\<close> holds, in order, exactly the targets
  that are in both stores with more than \<^verbatim>\<open>min_tweets\<close> samples in each period; every
  other target is left out, and the \<^verbatim>\<open>"combined_APD"\<close> column has one entry per word kept.
\<close>

theorem get_APD_scores_omits_sparse_words:
  "word (get_APD_scores lib corpus1_reps corpus2_reps targets pca_dim min_tweets)
     = filter (\<lambda>target. \<not> omitted corpus1_reps corpus2_reps min_tweets target) targets \<and>
   length (combined_APD (get_APD_scores lib corpus1_reps corpus2_reps targets pca_dim min_tweets))
     = length (word (get_APD_scores lib corpus1_reps corpus2_reps targets pca_dim min_tweets))"
  using APD_scores_loop_columns
          [of lib corpus1_reps corpus2_reps pca_dim min_tweets targets
              "\<lparr>word = [], combined_APD = []\<rparr>"]
  by (simp add: get_APD_scores_def)

section \<open>Average pairwise difference: unknown metric, symmetry\<close>

lemma unknown_metric_returns_empty_list:
  assumes "metric \<notin> {''euclidian'', ''cosine'', ''manhattan'', ''canberra'', ''combined2'',
                       ''combined3a'', ''combined3b'', ''combined4''}"
  shows "compute_average_pairwise_difference A B metric = EmptyList"
  using assms by (simp add: compute_average_pairwise_difference_def)

text \<open>
  C7. On the metric name \<^verbatim>\<open>"combined"\<close>, which \<^verbatim>\<open>get_APD_semantic_change_scores\<close> passes
  and which is none of the supported names, \<^verbatim>\<open>compute_average_pairwise_difference\<close>
  returns the empty list it started from; nothing is raised.
\<close>

theorem unknown_metric_is_not_an_error:
  "compute_average_pairwise_difference [[1, 0]] [[0, 1]] ''combined'' = EmptyList"
  by (simp add: compute_average_pairwise_difference_def)


































section \<open>IEEE doubles\<close>

lemma round_even_near: "\<bar>of_int (round_even y) - y\<bar> \<le> 1 / 2"
proof -
  have "of_int \<lfloor>y\<rfloor> \<le> y" "y < of_int \<lfloor>y\<rfloor> + 1"
    by linarith+
  then show ?thesis
    by (auto simp: round_even_def Let_def)
qed

lemma double_zero: "double 0 = 0"
  by (simp add: double_def)


lemma double_error:
  "\<bar>double x - x\<bar> \<le> \<bar>x\<bar> / 2 ^ 53"
proof (cases "x = 0")
  case True
  then show ?thesis by (simp add: double_def)
next
  case False
  define u :: real where "u = 2 powr of_int (\<lfloor>log 2 \<bar>x\<bar>\<rfloor> - 52)"
  define r where "r = round_even (\<bar>x\<bar> / u)"
  have u: "0 < u"
    by (simp add: u_def)
  have d: "double x = sgn x * of_int r * u"
    using False by (simp add: double_def Let_def u_def r_def)
  have "sgn x * (of_int r * u - \<bar>x\<bar>) = sgn x * of_int r * u - sgn x * \<bar>x\<bar>"
    by (simp add: algebra_simps)
  also have "\<dots> = double x - x"
    by (simp only: mult_sgn_abs d)
  finally have "\<bar>double x - x\<bar> = \<bar>sgn x * (of_int r * u - \<bar>x\<bar>)\<bar>"
    by simp
  also have "\<dots> = \<bar>of_int r * u - \<bar>x\<bar>\<bar>"
    using False by (simp add: abs_mult abs_sgn_eq)
  also have "\<dots> = \<bar>of_int r - \<bar>x\<bar> / u\<bar> * u"
    using u by (simp add: abs_mult [symmetric] field_simps)
  also have "\<dots> \<le> 1 / 2 * u"
    using round_even_near [of "\<bar>x\<bar> / u"] u by (intro mult_right_mono) (simp_all add: r_def)
  also have "1 / 2 * u = 2 powr (of_int \<lfloor>log 2 \<bar>x\<bar>\<rfloor> - 53)"
    by (simp add: u_def powr_diff)
  also have "\<dots> \<le> 2 powr (log 2 \<bar>x\<bar> - 53)"
    by (intro powr_mono) simp_all
  also have "\<dots> = \<bar>x\<bar> / 2 ^ 53"
    using False by (simp add: powr_diff)
  finally show ?thesis .
qed

lemma double_positive:
  assumes "0 < x"
  shows "0 < double x"
proof -
  have "\<bar>x\<bar> / 2 ^ 53 < x"
    using assms by simp
  with double_error [of x] show ?thesis
    by linarith
qed

lemma double_eval:
  assumes "0 < x" and "2 ^ 52 \<le> x / 2 powr of_int e" and "x / 2 powr of_int e < 2 ^ 53"
  shows "double x = of_int (round_even (x / 2 powr of_int e)) * 2 powr of_int e"
proof -
  have p: "0 < (2::real) powr of_int e"
    by simp
  have "2 powr 52 * 2 powr of_int e \<le> x" "x < 2 powr 53 * 2 powr of_int e"
    using assms(2,3) p by (simp_all add: field_simps)
  then have "2 powr (of_int (e + 52)) \<le> x" "x < 2 powr (of_int (e + 52) + 1)"
    by (simp_all add: powr_add mult.commute)
  then have "of_int (e + 52) \<le> log 2 x" "log 2 x < of_int (e + 52) + 1"
    using assms(1) by (simp_all add: le_log_iff log_less_iff)
  then have "\<lfloor>log 2 x\<rfloor> = e + 52"
    by (intro floor_unique) simp_all
  then show ?thesis
    using assms(1) by (simp add: double_def Let_def)
qed

lemma double_eval_scaled:
  assumes "0 < x" and "2 ^ 52 \<le> x * 2 ^ k" and "x * 2 ^ k < 2 ^ 53"
  shows "double x = of_int (round_even (x * 2 ^ k)) / 2 ^ k"
proof -
  have "(2::real) powr of_int (- int k) = 1 / 2 ^ k"
    by (simp add: powr_minus powr_realpow divide_inverse)
  then show ?thesis
    using double_eval [of x "- int k"] assms by simp
qed

section \<open>Categorical fitter in float arithmetic\<close>

lemma comprehension_fl_truediv:
  "comprehension (\<lambda>(_, count). fl_truediv rnd count n) cs =
     (case comprehension (\<lambda>(_, count). truediv count n) cs of
        Inl e \<Rightarrow> Inl e | Inr probs \<Rightarrow> Inr (map rnd probs))"
proof (cases "n = 0")
  case True
  then show ?thesis
    by (cases cs) (auto simp: fl_truediv_def truediv_def)
next
  case False
  then show ?thesis
    by (induction cs) (auto simp: fl_truediv_def truediv_def split: sum.splits)
qed

lemma fl_period_probs_rounds:
  "fl_period_probs rnd labels period n =
     (case period_probs labels period n of
        Inl e \<Rightarrow> Inl e | Inr probs \<Rightarrow> Inr (map rnd probs))"
  by (simp add: fl_period_probs_def period_probs_def comprehension_fl_truediv)

lemma fl_fit_categoricals_rounds:
  "fl_fit_categoricals_from_clusters rnd xs p1 p2 =
     (case fit_categoricals_from_clusters xs p1 p2 of
        Inl e \<Rightarrow> Inl e
      | Inr (probs1, probs2) \<Rightarrow> Inr (map rnd probs1, map rnd probs2))"
  by (simp add: fl_fit_categoricals_from_clusters_def fit_categoricals_from_clusters_def
      fl_period_probs_rounds Let_def split: sum.splits)

lemma spec_probs_nonnegative:
  assumes "0 < n" and "spec_probs xs period n = Inr probs"
  shows "\<forall>q\<in>set probs. 0 \<le> q"
  using assms by (auto simp: spec_probs_def comprehension_truediv)

lemma sum_list_double_error:
  assumes "\<forall>q\<in>set probs. 0 \<le> q"
  shows "\<bar>sum_list (map double probs) - sum_list probs\<bar> \<le> sum_list probs / 2 ^ 53"
  using assms
proof (induction probs)
  case Nil
  show ?case by simp
next
  case (Cons q probs)
  then have IH: "\<bar>sum_list (map double probs) - sum_list probs\<bar> \<le> sum_list probs / 2 ^ 53"
    and q: "0 \<le> q"
    by simp_all
  have "\<bar>double q - q\<bar> \<le> q / 2 ^ 53"
    using double_error [of q] q by simp
  moreover have "sum_list (q # probs) / 2 ^ 53 = q / 2 ^ 53 + sum_list probs / 2 ^ 53"
    by (simp add: add_divide_distrib)
  moreover have "sum_list (map double (q # probs)) - sum_list (q # probs)
                   = (double q - q) + (sum_list (map double probs) - sum_list probs)"
    by simp
  ultimately show ?case
    using IH by linarith
qed


lemma double_nonnegative: "0 \<le> x \<Longrightarrow> 0 \<le> double x"
  using double_positive [of x] by (cases "x = 0") (simp_all add: double_zero less_imp_le)

lemma fl_sum_snoc: "fl_sum rnd (xs @ [x]) = rnd (fl_sum rnd xs + x)"
  by (simp add: fl_sum_def)

text \<open>
  The error of a float sum of \<open>n\<close> non-negative terms: each of the \<open>n\<close> additions rounds
  once, with relative error at most \<open>2\<^sup>-\<^sup>5\<^sup>3\<close>.
\<close>

lemma fl_sum_double_error:
  assumes "\<forall>x\<in>set xs. 0 \<le> x"
  shows "\<bar>fl_sum double xs - sum_list xs\<bar> \<le> ((1 + 1 / 2 ^ 53) ^ length xs - 1) * sum_list xs"
  using assms
proof (induction xs rule: rev_induct)
  case Nil
  show ?case by (simp add: fl_sum_def)
next
  case (snoc x xs)
  define u :: real where "u = 1 / 2 ^ 53"
  define c where "c = (1 + u) ^ length xs - 1"
  define S where "S = sum_list xs"
  define f where "f = fl_sum double xs"
  have u: "0 < u"
    by (simp add: u_def)
  have x: "0 \<le> x" and S: "0 \<le> S"
    using snoc.prems by (simp_all add: S_def sum_list_nonneg)
  have "1 \<le> (1 + u) ^ length xs"
    using u by (intro one_le_power) simp
  then have c: "0 \<le> c"
    by (simp add: c_def)
  have IH: "\<bar>f - S\<bar> \<le> c * S"
    using snoc by (simp add: f_def S_def c_def u_def)
  also have "c * S \<le> c * (S + x)"
    using c x by (intro mult_left_mono) simp_all
  finally have E: "\<bar>f - S\<bar> \<le> c * (S + x)" .
  have "\<bar>double (f + x) - (f + x)\<bar> \<le> \<bar>f + x\<bar> * u"
    using double_error [of "f + x"] by (simp add: u_def)
  also have "\<bar>f + x\<bar> \<le> (S + x) + c * (S + x)"
    using E S x by linarith
  finally have R: "\<bar>double (f + x) - (f + x)\<bar> \<le> ((S + x) + c * (S + x)) * u"
    using u by (simp add: mult_right_mono)
  have "\<bar>double (f + x) - (S + x)\<bar> \<le> \<bar>double (f + x) - (f + x)\<bar> + \<bar>f - S\<bar>"
    by linarith
  also have "\<dots> \<le> ((S + x) + c * (S + x)) * u + c * (S + x)"
    using R E by linarith
  also have "\<dots> = ((1 + u) * (c + 1) - 1) * (S + x)"
    by (simp add: algebra_simps)
  also have "(1 + u) * (c + 1) = (1 + u) ^ length (xs @ [x])"
    by (simp add: c_def)
  finally show ?case
    by (simp add: fl_sum_snoc f_def S_def u_def)
qed

lemma double_sixths:
  "double (1 / 6) = 6004799503160661 / 36028797018963968"
  "double (6004799503160661 / 36028797018963968) = 6004799503160661 / 36028797018963968"
  "double (6004799503160661 / 18014398509481984) = 6004799503160661 / 18014398509481984"
  "double (18014398509481983 / 36028797018963968) = 1 / 2"
  "double (24019198012642645 / 36028797018963968) = 6004799503160661 / 9007199254740992"
  "double (30023997515803305 / 36028797018963968) = 3752999689475413 / 4503599627370496"
  "double (36028797018963965 / 36028797018963968) = 9007199254740991 / 9007199254740992"
proof -
  show "double (1 / 6) = 6004799503160661 / 36028797018963968"
    using double_eval_scaled [of "1 / 6" 55]
    by (simp add: round_even_def)
  show "double (6004799503160661 / 36028797018963968) = 6004799503160661 / 36028797018963968"
    using double_eval_scaled [of "6004799503160661 / 36028797018963968" 55]
    by (simp add: round_even_def)
  show "double (6004799503160661 / 18014398509481984) = 6004799503160661 / 18014398509481984"
    using double_eval_scaled [of "6004799503160661 / 18014398509481984" 54]
    by (simp add: round_even_def)
  show "double (18014398509481983 / 36028797018963968) = 1 / 2"
    using double_eval_scaled [of "18014398509481983 / 36028797018963968" 54]
    by (simp add: round_even_def)
  show "double (24019198012642645 / 36028797018963968) = 6004799503160661 / 9007199254740992"
    using double_eval_scaled [of "24019198012642645 / 36028797018963968" 53]
    by (simp add: round_even_def)
  show "double (30023997515803305 / 36028797018963968) = 3752999689475413 / 4503599627370496"
    using double_eval_scaled [of "30023997515803305 / 36028797018963968" 53]
    by (simp add: round_even_def)
  show "double (36028797018963965 / 36028797018963968) = 9007199254740991 / 9007199254740992"
    using double_eval_scaled [of "36028797018963965 / 36028797018963968" 53]
    by (simp add: round_even_def)
qed


text \<open>
  C6 as stated fails: the sums are not exactly 1. On twelve samples with six labels, six
  per period, every probability is the float nearest to 1/6, which is below 1/6: the six
  returned floats sum to \<open>1 - 2\<^sup>-\<^sup>5\<^sup>4\<close>, and added up as floats from left to right to
  \<open>1 - 2\<^sup>-\<^sup>5\<^sup>3\<close> (\<^verbatim>\<open>0.9999999999999999\<close>).
\<close>

theorem fit_categoricals_sixths_sum_below_one:
  "fl_fit_categoricals_from_clusters double [0, 1, 2, 3, 4, 5, 0, 1, 2, 3, 4, 5] 6 6
     = Inr (replicate 6 (6004799503160661 / 36028797018963968),
            replicate 6 (6004799503160661 / 36028797018963968)) \<and>
   sum_list (replicate 6 (6004799503160661 / 36028797018963968 :: real))
     = 18014398509481983 / 18014398509481984 \<and>
   fl_sum double (replicate 6 (6004799503160661 / 36028797018963968))
     = 9007199254740991 / 9007199254740992 \<and>
   sum_list (replicate 6 (6004799503160661 / 36028797018963968 :: real)) \<noteq> 1"
proof -
  have "fit_categoricals_from_clusters [0, 1, 2, 3, 4, 5, 0, 1, 2, 3, 4, 5] 6 6
          = Inr (replicate 6 (1 / 6), replicate 6 (1 / 6))"
    by (simp add: fit_categoricals_from_clusters_def label_set_def period_probs_def
        period_counts_def Counter_def count_step_def truediv_def numeral_eq_Suc)
  then have "fl_fit_categoricals_from_clusters double [0, 1, 2, 3, 4, 5, 0, 1, 2, 3, 4, 5] 6 6
     = Inr (replicate 6 (6004799503160661 / 36028797018963968),
            replicate 6 (6004799503160661 / 36028797018963968))"
    by (simp add: fl_fit_categoricals_rounds double_sixths(1))
  moreover have "fl_sum double (replicate 6 (6004799503160661 / 36028797018963968))
     = 9007199254740991 / 9007199254740992"
    by (simp add: fl_sum_def numeral_eq_Suc double_sixths)
  moreover have "sum_list (replicate 6 (6004799503160661 / 36028797018963968 :: real))
     = 18014398509481983 / 18014398509481984"
    by (simp add: sum_list_replicate)
  ultimately show ?thesis
    by simp
qed

text \<open>
  C6, as the code has it. With both period lengths positive and summing to the length of the
  assignment, the two returned vectors have the same length, the number of distinct
  labels of the whole assignment, and each sums to 1 up to rounding: the sum of the
  returned floats is within \<open>2\<^sup>-\<^sup>5\<^sup>3\<close> of 1, and adding them up as floats, from left to
  right, gives a float within \<open>(1 + 2\<^sup>-\<^sup>5\<^sup>3)\<^sup>k\<^sup>+\<^sup>1 - 1\<close> of 1, for \<open>k\<close> labels.
\<close>

theorem fit_categoricals_sums_near_one:
  assumes p1: "0 < p1" and p2: "0 < p2" and len: "p1 + p2 = length xs"
  shows "\<exists>probs1 probs2.
           fl_fit_categoricals_from_clusters double xs p1 p2 = Inr (probs1, probs2) \<and>
           length probs1 = length probs2 \<and> length probs1 = card (set xs) \<and>
           \<bar>sum_list probs1 - 1\<bar> \<le> 1 / 2 ^ 53 \<and> \<bar>sum_list probs2 - 1\<bar> \<le> 1 / 2 ^ 53 \<and>
           \<bar>fl_sum double probs1 - 1\<bar> \<le> (1 + 1 / 2 ^ 53) ^ (card (set xs) + 1) - 1 \<and>
           \<bar>fl_sum double probs2 - 1\<bar> \<le> (1 + 1 / 2 ^ 53) ^ (card (set xs) + 1) - 1"
proof -
  have near: "\<bar>sum_list (map double qs) - 1\<bar> \<le> 1 / 2 ^ 53 \<and>
              \<bar>fl_sum double (map double qs) - 1\<bar> \<le> (1 + 1 / 2 ^ 53) ^ (length qs + 1) - 1"
    if one: "sum_list qs = 1" and nonneg: "\<forall>q\<in>set qs. 0 \<le> q" for qs
  proof -
    define u :: real where "u = 1 / 2 ^ 53"
    define c where "c = (1 + u) ^ length qs - 1"
    define S where "S = sum_list (map double qs)"
    have u: "0 < u"
      by (simp add: u_def)
    have "1 \<le> (1 + u) ^ length qs"
      using u by (intro one_le_power) simp
    then have c: "0 \<le> c"
      by (simp add: c_def)
    have S: "\<bar>S - 1\<bar> \<le> u"
      using sum_list_double_error [OF nonneg] one by (simp add: S_def u_def)
    have "\<forall>x\<in>set (map double qs). 0 \<le> x"
      using nonneg by (simp add: double_nonnegative)
    then have "\<bar>fl_sum double (map double qs) - S\<bar> \<le> c * S"
      using fl_sum_double_error [of "map double qs"] by (simp add: S_def c_def u_def)
    also have "c * S \<le> c * (1 + u)"
      using c S by (intro mult_left_mono) linarith+
    finally have "\<bar>fl_sum double (map double qs) - 1\<bar> \<le> c * (1 + u) + u"
      using S by linarith
    also have "c * (1 + u) + u = (1 + u) ^ (length qs + 1) - 1"
      by (simp add: c_def algebra_simps)
    finally show ?thesis
      using S by (simp add: S_def u_def)
  qed
  obtain qs1 qs2 where exact: "fit_categoricals_from_clusters xs p1 p2 = Inr (qs1, qs2)"
    "length qs1 = length qs2" "length qs1 = card (set xs)"
    "sum_list qs1 = 1" "sum_list qs2 = 1"
    using exact_quotients_distribution [OF p1 p2 len] by blast
  then have "spec_probs xs (take p1 xs) p1 = Inr qs1" "spec_probs xs (drop p1 xs) p2 = Inr qs2"
    by (auto simp: fit_categoricals_refines_spec fit_categoricals_spec_def split: sum.splits)
  then have nonneg: "\<forall>q\<in>set qs1. 0 \<le> q" "\<forall>q\<in>set qs2. 0 \<le> q"
    using spec_probs_nonnegative p1 p2 by blast+
  have "fl_fit_categoricals_from_clusters double xs p1 p2 = Inr (map double qs1, map double qs2)"
    by (simp add: fl_fit_categoricals_rounds exact(1))
  with near [OF exact(4) nonneg(1)] near [OF exact(5) nonneg(2)] exact(2,3) show ?thesis
    by simp
qed

theorem fit_categoricals_sums_near_one_witness:
  "\<exists>probs1 probs2.
     fl_fit_categoricals_from_clusters double [0, 1, 2, 3, 4, 5, 0, 1, 2, 3, 4, 5] 6 6
       = Inr (probs1, probs2) \<and>
     length probs1 = length probs2 \<and> length probs1 = 6 \<and>
     \<bar>sum_list probs1 - 1\<bar> \<le> 1 / 2 ^ 53 \<and> \<bar>sum_list probs2 - 1\<bar> \<le> 1 / 2 ^ 53 \<and>
     \<bar>fl_sum double probs1 - 1\<bar> \<le> (1 + 1 / 2 ^ 53) ^ 7 - 1 \<and>
     \<bar>fl_sum double probs2 - 1\<bar> \<le> (1 + 1 / 2 ^ 53) ^ 7 - 1"
proof -
  have labels: "card (set [0, 1, 2, 3, 4, 5, 0, 1, 2, 3, 4, 5 :: int]) = 6"
    by (simp only: length_remdups_card_conv [symmetric]) simp
  show ?thesis
    using fit_categoricals_sums_near_one [of 6 6 "[0, 1, 2, 3, 4, 5, 0, 1, 2, 3, 4, 5]"]
    unfolding labels by simp
qed

section \<open>Average pairwise difference in float arithmetic\<close>

subsection \<open>Without rounding: the exact definitions\<close>















subsection \<open>With rounding: the terms are symmetric\<close>














subsection \<open>With rounding: the result is a finite float\<close>

lemma fl_sum_double_nonnegative:
  assumes "\<forall>x\<in>set xs. 0 \<le> x"
  shows "0 \<le> fl_sum double xs"
  using assms
  by (induction xs rule: rev_induct) (simp_all add: fl_sum_def double_nonnegative)


lemma fl_norm2_double_nonnegative: "0 \<le> fl_norm2 double x"
  unfolding fl_norm2_def
  by (intro double_nonnegative real_sqrt_ge_zero fl_sum_double_nonnegative)
    (simp add: double_nonnegative)














end
